theory Spec2Isabelle
  imports Main
begin

section \<open>SU2Run/su2run.py: running SU2 in a working directory\<close>

text \<open>
  The module runs the external SU2 executables in a working directory. Its three run
  functions and its main block only touch the outside world: the process's current
  directory, the file system, and the helper functions of \<^verbatim>\<open>su2functions\<close> and of
  the sibling modules. The model makes this world explicit. Every function takes the
  world and returns the world it leaves, together with either the exception it raised
  (\<open>Inl\<close>) or its return value (\<open>Inr\<close>); the world returned with an exception is the world
  at the moment of the \<^verbatim>\<open>raise\<close>, so what was done before it stays done.
\<close>

subsection \<open>Values, exceptions and the world\<close>

type_synonym path = string

text \<open>
  The values stored in a configuration dictionary: a string, a list of strings, or a
  float. The only float the module stores is the literal \<^verbatim>\<open>0.01\<close>; \<open>PFloat m e\<close>
  stands for the decimal literal \<open>m * 10^e\<close>.
\<close>

datatype pyval = PStr string | PList "string list" | PFloat int int

text \<open>
  The dictionary returned by \<^verbatim>\<open>read_config\<close>, in insertion order. \<open>set_item\<close> is
  \<^verbatim>\<open>d[key] = value\<close>: an existing key keeps its place, a new key goes to the end.
\<close>

type_synonym config = "(string \<times> pyval) list"

primrec set_item :: "string \<Rightarrow> pyval \<Rightarrow> config \<Rightarrow> config" where
  "set_item key v [] = [(key, v)]"
| "set_item key v (p # ps) = (if fst p = key then (key, v) # ps else p # set_item key v ps)"

definition get_item :: "config \<Rightarrow> string \<Rightarrow> pyval option" where
  "get_item d key = map_of d key"

text \<open>
  The exceptions. \<open>OSError\<close> and \<open>ValueError\<close> carry the message the module gives them;
  \<open>FileNotFoundError\<close> and \<open>NotADirectoryError\<close> are the subclasses of \<^verbatim>\<open>OSError\<close>
  that \<^verbatim>\<open>os.chdir\<close> and \<^verbatim>\<open>os.listdir\<close> raise; \<open>IndexError\<close> is \<^verbatim>\<open>sys.argv[2]\<close>
  on a shorter argument list.
\<close>

datatype error =
    OSError string
  | FileNotFoundError path
  | NotADirectoryError path
  | ValueError string
  | IndexError

text \<open>
  The file system maps a path to what is there: a file with its text, or a directory
  with the names \<^verbatim>\<open>os.listdir\<close> returns for it, in the order it returns them. Paths are
  the strings the program passes, taken as absolute path names, as the main block builds
  them (\<^verbatim>\<open>os.path.join(MODULE_DIR, ...)\<close>): \<^verbatim>\<open>os.chdir(p)\<close> makes \<open>p\<close> the current
  directory.
\<close>

datatype node = File string | Dir "string list"

record os_state =
  cwd :: path
  fs :: "path \<Rightarrow> node option"

text \<open>
  The calls that leave the module, in the order they are made: the helpers of
  \<^verbatim>\<open>su2functions\<close>, \<^verbatim>\<open>cpacsfunctions\<close> and \<^verbatim>\<open>ceasiompyfunctions\<close>, the sibling
  modules' functions, and \<^verbatim>\<open>print\<close>. \<open>Read_config p d\<close> is the call
  \<^verbatim>\<open>read_config(p)\<close> that returned the dictionary \<open>d\<close>. Logging is not modelled.
\<close>

datatype event =
    Run_soft string path path
  | Read_config path config
  | Write_config path config
  | Extract_loads path
  | Open_tixi path
  | Get_wkdir_or_create_new
  | Generate_su2_config path path path
  | Get_su2_results path path path
  | Print string

record world =
  os :: os_state
  trace :: "event list"

text \<open>
  The helpers are not part of this file. Each is a parameter: what it returns and what it
  does to the current directory and the file system are given by the environment, for
  every call and every state. \<open>soft_status\<close> is the exit status of the executable that
  \<^verbatim>\<open>run_soft\<close> starts. Helpers are taken to return; an exception raised inside one is
  outside the model.
\<close>

record env =
  soft_status :: "string \<Rightarrow> path \<Rightarrow> path \<Rightarrow> os_state \<Rightarrow> int"
  soft_effect :: "string \<Rightarrow> path \<Rightarrow> path \<Rightarrow> os_state \<Rightarrow> os_state"
  config_read :: "path \<Rightarrow> os_state \<Rightarrow> config"
  config_write :: "path \<Rightarrow> config \<Rightarrow> os_state \<Rightarrow> os_state"
  loads_effect :: "path \<Rightarrow> os_state \<Rightarrow> os_state"
  module_dir :: path
  wkdir_result :: "os_state \<Rightarrow> path"
  wkdir_effect :: "os_state \<Rightarrow> os_state"
  generate_effect :: "path \<Rightarrow> path \<Rightarrow> path \<Rightarrow> os_state \<Rightarrow> os_state"
  results_effect :: "path \<Rightarrow> path \<Rightarrow> path \<Rightarrow> os_state \<Rightarrow> os_state"

type_synonym 'a result = "(error + 'a) \<times> world"

subsection \<open>The operating system\<close>

definition os_path_exists :: "world \<Rightarrow> path \<Rightarrow> bool" where
  "os_path_exists w p = (fs (os w) p \<noteq> None)"

definition os_getcwd :: "world \<Rightarrow> path" where
  "os_getcwd w = cwd (os w)"

definition os_chdir :: "path \<Rightarrow> world \<Rightarrow> unit result" where
  "os_chdir p w =
     (case fs (os w) p of
        Some (Dir names) \<Rightarrow> (Inr (), w\<lparr>os := (os w)\<lparr>cwd := p\<rparr>\<rparr>)
      | Some (File txt) \<Rightarrow> (Inl (NotADirectoryError p), w)
      | None \<Rightarrow> (Inl (FileNotFoundError p), w))"

definition os_listdir :: "path \<Rightarrow> world \<Rightarrow> error + string list" where
  "os_listdir p w =
     (case fs (os w) p of
        Some (Dir names) \<Rightarrow> Inr names
      | Some (File txt) \<Rightarrow> Inl (NotADirectoryError p)
      | None \<Rightarrow> Inl (FileNotFoundError p))"

text \<open>
  \<^verbatim>\<open>os.path.join(a, b)\<close> of posixpath: an absolute \<open>b\<close> replaces \<open>a\<close>; otherwise \<open>b\<close> is
  appended, after a separator unless \<open>a\<close> is empty or ends with one.
\<close>

definition os_path_join :: "path \<Rightarrow> path \<Rightarrow> path" where
  "os_path_join a b =
     (if b \<noteq> [] \<and> hd b = CHR ''/'' then b
      else if a = [] \<or> last a = CHR ''/'' then a @ b
      else a @ ''/'' @ b)"

text \<open>\<^verbatim>\<open>sub in s\<close> on strings: \<open>sub\<close> occurs in \<open>s\<close> as a contiguous substring.\<close>

fun str_in :: "string \<Rightarrow> string \<Rightarrow> bool" where
  "str_in sub [] = (sub = [])"
| "str_in sub (c # cs) = (take (length sub) (c # cs) = sub \<or> str_in sub cs)"

subsection \<open>The helpers\<close>

definition run_soft :: "env \<Rightarrow> string \<Rightarrow> path \<Rightarrow> path \<Rightarrow> world \<Rightarrow> int \<times> world" where
  "run_soft E soft config_path wkdir w =
     (soft_status E soft config_path wkdir (os w),
      \<lparr>os = soft_effect E soft config_path wkdir (os w),
       trace = trace w @ [Run_soft soft config_path wkdir]\<rparr>)"

definition read_config :: "env \<Rightarrow> path \<Rightarrow> world \<Rightarrow> config \<times> world" where
  "read_config E config_path w =
     (config_read E config_path (os w),
      \<lparr>os = os w,
       trace = trace w @ [Read_config config_path (config_read E config_path (os w))]\<rparr>)"

definition write_config :: "env \<Rightarrow> path \<Rightarrow> config \<Rightarrow> world \<Rightarrow> world" where
  "write_config E config_path d w =
     \<lparr>os = config_write E config_path d (os w),
      trace = trace w @ [Write_config config_path d]\<rparr>"

definition extract_loads :: "env \<Rightarrow> path \<Rightarrow> world \<Rightarrow> world" where
  "extract_loads E wkdir w =
     \<lparr>os = loads_effect E wkdir (os w), trace = trace w @ [Extract_loads wkdir]\<rparr>"

definition open_tixi :: "path \<Rightarrow> world \<Rightarrow> world" where
  "open_tixi cpacs_path w = \<lparr>os = os w, trace = trace w @ [Open_tixi cpacs_path]\<rparr>"

definition get_wkdir_or_create_new :: "env \<Rightarrow> world \<Rightarrow> path \<times> world" where
  "get_wkdir_or_create_new E w =
     (wkdir_result E (os w),
      \<lparr>os = wkdir_effect E (os w), trace = trace w @ [Get_wkdir_or_create_new]\<rparr>)"

definition generate_su2_config :: "env \<Rightarrow> path \<Rightarrow> path \<Rightarrow> path \<Rightarrow> world \<Rightarrow> world" where
  "generate_su2_config E cpacs_path cpacs_out_path wkdir w =
     \<lparr>os = generate_effect E cpacs_path cpacs_out_path wkdir (os w),
      trace = trace w @ [Generate_su2_config cpacs_path cpacs_out_path wkdir]\<rparr>"

definition get_su2_results :: "env \<Rightarrow> path \<Rightarrow> path \<Rightarrow> path \<Rightarrow> world \<Rightarrow> world" where
  "get_su2_results E cpacs_path cpacs_out_path wkdir w =
     \<lparr>os = results_effect E cpacs_path cpacs_out_path wkdir (os w),
      trace = trace w @ [Get_su2_results cpacs_path cpacs_out_path wkdir]\<rparr>"

definition print :: "string \<Rightarrow> world \<Rightarrow> world" where
  "print s w = \<lparr>os = os w, trace = trace w @ [Print s]\<rparr>"

subsection \<open>run\_SU2\_single\<close>

definition no_wkdir :: "path \<Rightarrow> error" where
  "no_wkdir wkdir = OSError (''The working directory : '' @ wkdir @ ''does not exit!'')"

definition run_SU2_single :: "env \<Rightarrow> path \<Rightarrow> path \<Rightarrow> world \<Rightarrow> unit result" where
  "run_SU2_single E config_path wkdir w =
     (if \<not> os_path_exists w wkdir then (Inl (no_wkdir wkdir), w)
      else
        let original_dir = os_getcwd w in
        case os_chdir wkdir w of
          (Inl e, w1) \<Rightarrow> (Inl e, w1)
        | (Inr u, w1) \<Rightarrow>
            let w2 = snd (run_soft E ''SU2_CFD'' config_path wkdir w1);
                w3 = snd (run_soft E ''SU2_SOL'' config_path wkdir w2)
            in os_chdir original_dir w3)"

subsection \<open>run\_SU2\_multi\<close>

text \<open>
  The four \<^verbatim>\<open>find_config_...\<close> flags and the four \<^verbatim>\<open>config_..._path\<close> variables of
  the loop body. A path variable is read only under its flag, and the flag is set in the
  statement after the assignment of the path: each pair is one optional path, \<open>None\<close>
  while the flag is \<^verbatim>\<open>False\<close>.
\<close>

record found =
  config_cfd_path :: "path option"
  config_def_path :: "path option"
  config_rot_path :: "path option"
  config_rot_sym_path :: "path option"

definition not_found :: found where
  "not_found = \<lparr>config_cfd_path = None, config_def_path = None,
                config_rot_path = None, config_rot_sym_path = None\<rparr>"

definition more_than_one :: "string \<Rightarrow> error" where
  \<open>more_than_one name = ValueError (''More than one "'' @ name @ ''" file in this directory!'')\<close>

text \<open>One \<^verbatim>\<open>if file == name:\<close> block of the inner loop, on the pair it guards.\<close>

definition check_name :: "string \<Rightarrow> path \<Rightarrow> string \<Rightarrow> path option \<Rightarrow> error + path option" where
  "check_name name config_dir file find_config =
     (if file = name then
        (if find_config \<noteq> None then Inl (more_than_one name)
         else Inr (Some (os_path_join config_dir file)))
      else Inr find_config)"

text \<open>The body of the inner loop: the four blocks, one after the other.\<close>

definition check_file :: "path \<Rightarrow> string \<Rightarrow> found \<Rightarrow> error + found" where
  "check_file config_dir file f =
     (case check_name ''ConfigCFD.cfg'' config_dir file (config_cfd_path f) of
        Inl e \<Rightarrow> Inl e
      | Inr c1 \<Rightarrow>
     (case check_name ''ConfigDEF.cfg'' config_dir file (config_def_path f) of
        Inl e \<Rightarrow> Inl e
      | Inr c2 \<Rightarrow>
     (case check_name ''ConfigDEF_rot.cfg'' config_dir file (config_rot_path f) of
        Inl e \<Rightarrow> Inl e
      | Inr c3 \<Rightarrow>
     (case check_name ''ConfigDEF_rot_sym.cfg'' config_dir file (config_rot_sym_path f) of
        Inl e \<Rightarrow> Inl e
      | Inr c4 \<Rightarrow>
          Inr \<lparr>config_cfd_path = c1, config_def_path = c2,
               config_rot_path = c3, config_rot_sym_path = c4\<rparr>))))"

text \<open>The inner loop \<^verbatim>\<open>for file in os.listdir(config_dir)\<close>.\<close>

fun find_configs :: "path \<Rightarrow> string list \<Rightarrow> found \<Rightarrow> error + found" where
  "find_configs config_dir [] f = Inr f"
| "find_configs config_dir (file # files) f =
     (case check_file config_dir file f of
        Inl e \<Rightarrow> Inl e
      | Inr f' \<Rightarrow> find_configs config_dir files f')"

text \<open>\<^verbatim>\<open>if find_config: su2f.run_soft('SU2_DEF', config_path, config_dir)\<close>.\<close>

definition run_def_if :: "env \<Rightarrow> path option \<Rightarrow> path \<Rightarrow> world \<Rightarrow> world" where
  "run_def_if E find_config config_dir w =
     (case find_config of
        None \<Rightarrow> w
      | Some config_path \<Rightarrow> snd (run_soft E ''SU2_DEF'' config_path config_dir w))"

definition no_config_cfd :: error where
  \<open>no_config_cfd = ValueError ''No "ConfigCFD.cfg" file has been found in this directory!''\<close>

text \<open>The body of the outer loop, for one entry \<open>dir\<close> of the case directory list.\<close>

definition run_case :: "env \<Rightarrow> path \<Rightarrow> string \<Rightarrow> world \<Rightarrow> unit result" where
  "run_case E wkdir dir w =
     (let config_dir = os_path_join wkdir dir in
      case os_chdir config_dir w of
        (Inl e, w1) \<Rightarrow> (Inl e, w1)
      | (Inr u, w1) \<Rightarrow>
     (case os_listdir config_dir w1 of
        Inl e \<Rightarrow> (Inl e, w1)
      | Inr files \<Rightarrow>
     (case find_configs config_dir files not_found of
        Inl e \<Rightarrow> (Inl e, w1)
      | Inr f \<Rightarrow>
          let w2 = run_def_if E (config_def_path f) config_dir w1;
              w3 = run_def_if E (config_rot_path f) config_dir w2;
              w4 = run_def_if E (config_rot_sym_path f) config_dir w3
          in
           (case config_cfd_path f of
              None \<Rightarrow> (Inl no_config_cfd, w4)
            | Some cfd_path \<Rightarrow>
                os_chdir wkdir (snd (run_soft E ''SU2_CFD'' cfd_path config_dir w4))))))"

text \<open>The outer loop \<^verbatim>\<open>for dir in case_dir_list\<close>: it stops at the first exception.\<close>

fun run_cases :: "env \<Rightarrow> path \<Rightarrow> string list \<Rightarrow> world \<Rightarrow> unit result" where
  "run_cases E wkdir [] w = (Inr (), w)"
| "run_cases E wkdir (dir # dirs) w =
     (case run_case E wkdir dir w of
        (Inl e, w') \<Rightarrow> (Inl e, w')
      | (Inr u, w') \<Rightarrow> run_cases E wkdir dirs w')"

definition case_dirs :: "string list \<Rightarrow> string list" where
  "case_dirs names = filter (str_in ''Case'') names"

definition no_case_dir :: "path \<Rightarrow> error" where
  "no_case_dir wkdir =
     OSError (''No folder has been found in the working directory: '' @ wkdir)"

definition run_SU2_multi :: "env \<Rightarrow> path \<Rightarrow> world \<Rightarrow> unit result" where
  "run_SU2_multi E wkdir w =
     (if \<not> os_path_exists w wkdir then (Inl (no_wkdir wkdir), w)
      else
        let original_dir = os_getcwd w in
        case os_chdir wkdir w of
          (Inl e, w1) \<Rightarrow> (Inl e, w1)
        | (Inr u, w1) \<Rightarrow>
       (case os_listdir wkdir w1 of
          Inl e \<Rightarrow> (Inl e, w1)
        | Inr names \<Rightarrow>
            let case_dir_list = case_dirs names in
            if case_dir_list = [] then (Inl (no_case_dir wkdir), w1)
            else run_cases E wkdir case_dir_list w1))"

subsection \<open>run\_SU2\_fsi\<close>

text \<open>The five assignments to \<^verbatim>\<open>cfg_def\<close> and the one to \<^verbatim>\<open>cfg_cfd\<close>.\<close>

definition set_def_items :: "config \<Rightarrow> config" where
  "set_def_items cfg_def =
     set_item ''DV_VALUE'' (PFloat 1 (- 2))
       (set_item ''DV_PARAM'' (PList [''WING'', ''0'', ''0'', ''1'', ''0.0'', ''0.0'', ''1.0''])
         (set_item ''DV_FILENAME'' (PStr ''disp.dat'')
           (set_item ''DV_MARKER'' (PStr ''Wing'')
             (set_item ''DV_KIND'' (PStr ''SURFACE_FILE'') cfg_def))))"

definition set_cfd_items :: "config \<Rightarrow> config" where
  "set_cfd_items cfg_cfd = set_item ''MESH_FILENAME'' (PStr ''mesh_out.su2'') cfg_cfd"

definition run_SU2_fsi :: "env \<Rightarrow> path \<Rightarrow> path \<Rightarrow> world \<Rightarrow> unit result" where
  "run_SU2_fsi E config_path wkdir w =
     (if \<not> os_path_exists w wkdir then (Inl (no_wkdir wkdir), w)
      else
        let original_dir = os_getcwd w in
        case os_chdir wkdir w of
          (Inl e, w1) \<Rightarrow> (Inl e, w1)
        | (Inr u, w1) \<Rightarrow>
            let config_def_path = os_path_join wkdir ''ConfigDEF.cfg'';
                (cfg_def, w2) = read_config E config_path w1;
                w3 = write_config E config_def_path (set_def_items cfg_def) w2;
                config_cfd_path = os_path_join wkdir ''ConfigCFD.cfg'';
                (cfg_cfd, w4) = read_config E config_path w3;
                w5 = write_config E config_cfd_path (set_cfd_items cfg_cfd) w4;
                w6 = snd (run_soft E ''SU2_DEF'' config_def_path wkdir w5);
                w7 = snd (run_soft E ''SU2_CFD'' config_cfd_path wkdir w6);
                w8 = snd (run_soft E ''SU2_SOL'' config_cfd_path wkdir w7);
                w9 = extract_loads E wkdir w8
            in os_chdir original_dir w9)"

subsection \<open>The main block\<close>

text \<open>\<^verbatim>\<open>sys.argv[2]\<close>.\<close>

definition argv2 :: "string list \<Rightarrow> error + string" where
  "argv2 argv = (if length argv > 2 then Inr (argv ! 2) else Inl IndexError)"

definition main :: "env \<Rightarrow> string list \<Rightarrow> world \<Rightarrow> unit result" where
  "main E argv w =
     (let cpacs_path = os_path_join (os_path_join (module_dir E) ''ToolInput'') ''ToolInput.xml'';
          cpacs_out_path = os_path_join (os_path_join (module_dir E) ''ToolOutput'') ''ToolOutput.xml'';
          w0 = open_tixi cpacs_path w
      in
        if length argv > 1 then
          if argv ! 1 = ''-c'' then
            let (wkdir, w1) = get_wkdir_or_create_new E w0
            in (Inr (), generate_su2_config E cpacs_path cpacs_out_path wkdir w1)
          else if argv ! 1 = ''-s'' then
            (case argv2 argv of
               Inl e \<Rightarrow> (Inl e, w0)
             | Inr a \<Rightarrow>
                 let wkdir = os_path_join (module_dir E) a;
                     config_path = os_path_join wkdir ''ConfigCFD.cfg''
                 in run_SU2_single E config_path wkdir w0)
          else if argv ! 1 = ''-m'' then
            (case argv2 argv of
               Inl e \<Rightarrow> (Inl e, w0)
             | Inr a \<Rightarrow> run_SU2_multi E (os_path_join (module_dir E) a) w0)
          else if argv ! 1 = ''-f'' then
            (case argv2 argv of
               Inl e \<Rightarrow> (Inl e, w0)
             | Inr a \<Rightarrow>
                 let wkdir = os_path_join (module_dir E) a;
                     config_path = os_path_join wkdir ''ConfigCFD.cfg''
                 in run_SU2_fsi E config_path wkdir w0)
          else if argv ! 1 = ''-r'' then
            (case argv2 argv of
               Inl e \<Rightarrow> (Inl e, w0)
             | Inr a \<Rightarrow>
                 (Inr (), get_su2_results E cpacs_path cpacs_out_path
                            (os_path_join (module_dir E) a) w0))
          else (Inr (), print ''This arugment is not a valid option!'' w0)
        else
          let (wkdir, w1) = get_wkdir_or_create_new E w0;
              w2 = generate_su2_config E cpacs_path cpacs_out_path wkdir w1
          in
            case run_SU2_multi E wkdir w2 of
              (Inl e, w3) \<Rightarrow> (Inl e, w3)
            | (Inr u, w3) \<Rightarrow> (Inr (), get_su2_results E cpacs_path cpacs_out_path wkdir w3))"

subsection \<open>Reading a trace\<close>

text \<open>The reads and writes of configuration files in a trace, in order.\<close>

fun config_io :: "event list \<Rightarrow> event list" where
  "config_io [] = []"
| "config_io (Read_config p d # es) = Read_config p d # config_io es"
| "config_io (Write_config p d # es) = Write_config p d # config_io es"
| "config_io (e # es) = config_io es"

text \<open>
  What a case directory holding the files \<open>files\<close> is expected to see run, in the words
  of the specification: \<open>SU2_DEF\<close> for \<open>ConfigDEF.cfg\<close>, then for \<open>ConfigDEF_rot.cfg\<close>, then
  for \<open>ConfigDEF_rot_sym.cfg\<close>, each only if the file is there, and then \<open>SU2_CFD\<close> for
  \<open>ConfigCFD.cfg\<close>.
\<close>

definition def_runs :: "path \<Rightarrow> string list \<Rightarrow> event list" where
  "def_runs config_dir files =
     (if ''ConfigDEF.cfg'' \<in> set files
        then [Run_soft ''SU2_DEF'' (os_path_join config_dir ''ConfigDEF.cfg'') config_dir] else []) @
     (if ''ConfigDEF_rot.cfg'' \<in> set files
        then [Run_soft ''SU2_DEF'' (os_path_join config_dir ''ConfigDEF_rot.cfg'') config_dir] else []) @
     (if ''ConfigDEF_rot_sym.cfg'' \<in> set files
        then [Run_soft ''SU2_DEF'' (os_path_join config_dir ''ConfigDEF_rot_sym.cfg'') config_dir] else [])"

definition case_runs :: "path \<Rightarrow> string list \<Rightarrow> event list" where
  "case_runs config_dir files =
     def_runs config_dir files @
     (if ''ConfigCFD.cfg'' \<in> set files
        then [Run_soft ''SU2_CFD'' (os_path_join config_dir ''ConfigCFD.cfg'') config_dir] else [])"

text \<open>
  The shape of the runs of one case directory: any number of \<open>SU2_DEF\<close> runs in that
  directory, then at most one \<open>SU2_CFD\<close> run in it, and nothing after that one.
\<close>

fun defs_then_cfd :: "path \<Rightarrow> event list \<Rightarrow> bool" where
  "defs_then_cfd config_dir [] = True"
| "defs_then_cfd config_dir (Run_soft soft p d # es) =
     (d = config_dir \<and>
      (if soft = ''SU2_DEF'' then defs_then_cfd config_dir es
       else soft = ''SU2_CFD'' \<and> es = []))"
| "defs_then_cfd config_dir (e # es) = False"

subsection \<open>A sample environment and file system\<close>

text \<open>
  An environment whose executables all exit with status \<open>st\<close> and whose helpers leave
  the file system alone, and a small file system: \<open>/run\<close> holds one complete case
  directory, \<open>/wk\<close> a complete one followed by one without \<open>ConfigCFD.cfg\<close>.
\<close>

definition sample_env :: "int \<Rightarrow> env" where
  "sample_env st =
     \<lparr>soft_status = (\<lambda>soft config_path wkdir s. st),
      soft_effect = (\<lambda>soft config_path wkdir s. s),
      config_read = (\<lambda>config_path s.
         [(''MESH_FILENAME'', PStr ''mesh.su2''), (''DV_KIND'', PStr ''FFD_SETTING'')]),
      config_write = (\<lambda>config_path d s. s),
      loads_effect = (\<lambda>wkdir s. s),
      module_dir = ''/mod'',
      wkdir_result = (\<lambda>s. ''/run''),
      wkdir_effect = (\<lambda>s. s),
      generate_effect = (\<lambda>cpacs_path cpacs_out_path wkdir s. s),
      results_effect = (\<lambda>cpacs_path cpacs_out_path wkdir s. s)\<rparr>"

definition sample_fs :: "path \<Rightarrow> node option" where
  "sample_fs p =
     (if p = ''/home'' then Some (Dir [])
      else if p = ''/run'' then Some (Dir [''Case_a'', ''ConfigCFD.cfg''])
      else if p = ''/run/ConfigCFD.cfg'' then Some (File ''MESH_FILENAME= mesh.su2'')
      else if p = ''/run/Case_a'' then Some (Dir [''ConfigCFD.cfg'', ''ConfigDEF_rot_sym.cfg''])
      else if p = ''/wk'' then Some (Dir [''Case00'', ''notes.txt'', ''Case01''])
      else if p = ''/wk/Case00'' then Some (Dir [''ConfigDEF.cfg'', ''mesh.su2'', ''ConfigCFD.cfg''])
      else if p = ''/wk/Case01'' then Some (Dir [''ConfigDEF_rot.cfg'', ''ConfigDEF.cfg''])
      else None)"

definition sample_world :: world where
  "sample_world = \<lparr>os = \<lparr>cwd = ''/home'', fs = sample_fs\<rparr>, trace = []\<rparr>"

section \<open>Properties\<close>

subsection \<open>Basic facts\<close>

lemma set_item_get: "get_item (set_item k v d) k' = (if k' = k then Some v else get_item d k')"
  by (induction d) (auto simp: get_item_def)

lemma os_chdir_trace: "trace (snd (os_chdir p w)) = trace w"
  by (simp add: os_chdir_def split: option.splits node.splits)

lemma os_chdir_ok:
  "os_chdir p w = (Inr u, w') \<Longrightarrow> w' = w\<lparr>os := (os w)\<lparr>cwd := p\<rparr>\<rparr>"
  by (auto simp: os_chdir_def split: option.splits node.splits)

lemma os_chdir_dir:
  "fs (os w) p = Some (Dir names) \<Longrightarrow> os_chdir p w = (Inr (), w\<lparr>os := (os w)\<lparr>cwd := p\<rparr>\<rparr>)"
  by (simp add: os_chdir_def)

lemma run_soft_trace:
  "trace (snd (run_soft E soft config_path wkdir w)) = trace w @ [Run_soft soft config_path wkdir]"
  by (simp add: run_soft_def)

subsection \<open>The exit status is dropped\<close>

lemma run_soft_status_update:
  "snd (run_soft (E\<lparr>soft_status := st\<rparr>) soft config_path wkdir w) =
   snd (run_soft E soft config_path wkdir w)"
  by (simp add: run_soft_def)

lemma run_def_if_status_update:
  "run_def_if (E\<lparr>soft_status := st\<rparr>) c config_dir w = run_def_if E c config_dir w"
  by (simp add: run_def_if_def run_soft_status_update split: option.splits)

lemma run_case_status_update:
  "run_case (E\<lparr>soft_status := st\<rparr>) wkdir dir w = run_case E wkdir dir w"
  by (simp add: run_case_def run_def_if_status_update run_soft_status_update Let_def
      split: prod.splits sum.splits option.splits)

lemma run_cases_status_update:
  "run_cases (E\<lparr>soft_status := st\<rparr>) wkdir dirs w = run_cases E wkdir dirs w"
  by (induction dirs arbitrary: w)
    (simp_all add: run_case_status_update split: prod.splits sum.splits)

lemma helpers_status_update:
  "read_config (E\<lparr>soft_status := st\<rparr>) p w = read_config E p w"
  "write_config (E\<lparr>soft_status := st\<rparr>) p d w = write_config E p d w"
  "extract_loads (E\<lparr>soft_status := st\<rparr>) wkdir w = extract_loads E wkdir w"
  by (simp_all add: read_config_def write_config_def extract_loads_def)

text \<open>
  C1, as the specification states it, fails: with executables that exit with status 0 and
  with executables that exit with status 1, each run function returns the same value,
  \<^verbatim>\<open>None\<close>.
\<close>

theorem exit_status_not_forwarded:
  "fst (run_soft (sample_env 0) ''SU2_CFD'' ''/run/ConfigCFD.cfg'' ''/run'' sample_world) = 0 \<and>
   fst (run_soft (sample_env 1) ''SU2_CFD'' ''/run/ConfigCFD.cfg'' ''/run'' sample_world) = 1 \<and>
   fst (run_SU2_single (sample_env 0) ''/run/ConfigCFD.cfg'' ''/run'' sample_world) = Inr () \<and>
   fst (run_SU2_single (sample_env 1) ''/run/ConfigCFD.cfg'' ''/run'' sample_world) = Inr () \<and>
   fst (run_SU2_fsi (sample_env 0) ''/run/ConfigCFD.cfg'' ''/run'' sample_world) = Inr () \<and>
   fst (run_SU2_fsi (sample_env 1) ''/run/ConfigCFD.cfg'' ''/run'' sample_world) = Inr () \<and>
   fst (run_SU2_multi (sample_env 0) ''/run'' sample_world) = Inr () \<and>
   fst (run_SU2_multi (sample_env 1) ''/run'' sample_world) = Inr ()"
  by (simp add: run_soft_def sample_env_def sample_world_def sample_fs_def
      run_SU2_single_def run_SU2_fsi_def run_SU2_multi_def os_path_exists_def os_getcwd_def
      os_chdir_def os_listdir_def os_path_join_def case_dirs_def run_case_def
      check_file_def check_name_def not_found_def run_def_if_def
      read_config_def write_config_def extract_loads_def Let_def)

text \<open>
  C1, amended: the run functions return no value, and what they do does not depend on
  the exit status of the executables. Replacing the exit statuses by any others changes
  neither the result of a run function (the exception raised, or the return of
  \<^verbatim>\<open>None\<close>) nor the world it leaves.
\<close>

theorem exit_status_discarded:
  "run_SU2_single (E\<lparr>soft_status := st\<rparr>) config_path wkdir w =
     run_SU2_single E config_path wkdir w \<and>
   run_SU2_multi (E\<lparr>soft_status := st\<rparr>) wkdir w = run_SU2_multi E wkdir w \<and>
   run_SU2_fsi (E\<lparr>soft_status := st\<rparr>) config_path wkdir w =
     run_SU2_fsi E config_path wkdir w"
  by (simp add: run_SU2_single_def run_SU2_multi_def run_SU2_fsi_def Let_def
      run_soft_status_update run_cases_status_update helpers_status_update
      split: prod.splits sum.splits)

theorem exit_status_discarded_witness:
  "run_SU2_single (sample_env 1) ''/run/ConfigCFD.cfg'' ''/run'' sample_world =
     run_SU2_single (sample_env 0) ''/run/ConfigCFD.cfg'' ''/run'' sample_world \<and>
   run_SU2_multi (sample_env 1) ''/run'' sample_world =
     run_SU2_multi (sample_env 0) ''/run'' sample_world \<and>
   run_SU2_fsi (sample_env 1) ''/run/ConfigCFD.cfg'' ''/run'' sample_world =
     run_SU2_fsi (sample_env 0) ''/run/ConfigCFD.cfg'' ''/run'' sample_world"
proof -
  have "(sample_env 0)\<lparr>soft_status := (\<lambda>soft config_path wkdir s. 1)\<rparr> = sample_env 1"
    by (simp add: sample_env_def)
  then show ?thesis
    using exit_status_discarded [where E = "sample_env 0"
        and st = "\<lambda>soft config_path wkdir s. 1"
        and config_path = "''/run/ConfigCFD.cfg''" and wkdir = "''/run''" and w = sample_world]
    by simp
qed

subsection \<open>A missing working directory\<close>

text \<open>
  C8: when the working directory argument names no existing path, each of the three run
  functions raises the \<^verbatim>\<open>OSError\<close> of its first statement and leaves the world as it
  found it: no executable has been run, no configuration read or written, no helper
  called, and the current directory is the one at entry.
\<close>

theorem missing_wkdir_raises:
  assumes "\<not> os_path_exists w wkdir"
  shows "run_SU2_single E config_path wkdir w =
           (Inl (OSError (''The working directory : '' @ wkdir @ ''does not exit!'')), w) \<and>
         run_SU2_multi E wkdir w =
           (Inl (OSError (''The working directory : '' @ wkdir @ ''does not exit!'')), w) \<and>
         run_SU2_fsi E config_path wkdir w =
           (Inl (OSError (''The working directory : '' @ wkdir @ ''does not exit!'')), w)"
  using assms by (simp add: run_SU2_single_def run_SU2_multi_def run_SU2_fsi_def no_wkdir_def)

theorem missing_wkdir_raises_witness:
  "run_SU2_single (sample_env 0) ''/nowhere/ConfigCFD.cfg'' ''/nowhere'' sample_world =
     (Inl (OSError ''The working directory : /nowheredoes not exit!''), sample_world) \<and>
   run_SU2_multi (sample_env 0) ''/nowhere'' sample_world =
     (Inl (OSError ''The working directory : /nowheredoes not exit!''), sample_world) \<and>
   run_SU2_fsi (sample_env 0) ''/nowhere/ConfigCFD.cfg'' ''/nowhere'' sample_world =
     (Inl (OSError ''The working directory : /nowheredoes not exit!''), sample_world)"
proof -
  have h: "\<not> os_path_exists sample_world ''/nowhere''"
    by (simp add: os_path_exists_def sample_world_def sample_fs_def)
  show ?thesis
    using missing_wkdir_raises [OF h, where E = "sample_env 0"
        and config_path = "''/nowhere/ConfigCFD.cfg''"]
    by simp
qed

subsection \<open>run\_SU2\_single and run\_SU2\_fsi: what is called, in which order\<close>

lemma config_io_append: "config_io (xs @ ys) = config_io xs @ config_io ys"
  by (induction xs rule: config_io.induct) simp_all

lemma run_SU2_fsi_trace:
  assumes "fs (os w) wkdir = Some (Dir names)"
  shows "trace (snd (run_SU2_fsi E config_path wkdir w)) =
     trace w @
     (let s1 = (os w)\<lparr>cwd := wkdir\<rparr>;
          cfg_def = config_read E config_path s1;
          s2 = config_write E (os_path_join wkdir ''ConfigDEF.cfg'') (set_def_items cfg_def) s1;
          cfg_cfd = config_read E config_path s2
      in [Read_config config_path cfg_def,
          Write_config (os_path_join wkdir ''ConfigDEF.cfg'') (set_def_items cfg_def),
          Read_config config_path cfg_cfd,
          Write_config (os_path_join wkdir ''ConfigCFD.cfg'') (set_cfd_items cfg_cfd),
          Run_soft ''SU2_DEF'' (os_path_join wkdir ''ConfigDEF.cfg'') wkdir,
          Run_soft ''SU2_CFD'' (os_path_join wkdir ''ConfigCFD.cfg'') wkdir,
          Run_soft ''SU2_SOL'' (os_path_join wkdir ''ConfigCFD.cfg'') wkdir,
          Extract_loads wkdir])"
  using assms
  by (simp add: run_SU2_fsi_def os_path_exists_def os_getcwd_def os_chdir_dir os_chdir_trace
      read_config_def write_config_def run_soft_def extract_loads_def Let_def)

lemma set_def_items_get:
  "get_item (set_def_items d) key =
     (if key = ''DV_KIND'' then Some (PStr ''SURFACE_FILE'')
      else if key = ''DV_MARKER'' then Some (PStr ''Wing'')
      else if key = ''DV_FILENAME'' then Some (PStr ''disp.dat'')
      else if key = ''DV_PARAM''
        then Some (PList [''WING'', ''0'', ''0'', ''1'', ''0.0'', ''0.0'', ''1.0''])
      else if key = ''DV_VALUE'' then Some (PFloat 1 (- 2))
      else get_item d key)"
  by (simp add: set_def_items_def set_item_get)

lemma set_cfd_items_get:
  "get_item (set_cfd_items d) key =
     (if key = ''MESH_FILENAME'' then Some (PStr ''mesh_out.su2'') else get_item d key)"
  by (simp add: set_cfd_items_def set_item_get)

lemma sample_run_is_dir:
  "fs (os sample_world) ''/run'' = Some (Dir [''Case_a'', ''ConfigCFD.cfg''])"
  by (simp add: sample_world_def sample_fs_def)

text \<open>
  C4: called with a working directory that exists (as a directory), \<open>run_SU2_single\<close>
  makes exactly two calls that leave the module: \<^verbatim>\<open>run_soft\<close> for \<open>SU2_CFD\<close>, then
  \<^verbatim>\<open>run_soft\<close> for \<open>SU2_SOL\<close>, each with the given configuration path and working
  directory.
\<close>

theorem run_SU2_single_invocations:
  assumes "fs (os w) wkdir = Some (Dir names)"
  shows "trace (snd (run_SU2_single E config_path wkdir w)) =
     trace w @ [Run_soft ''SU2_CFD'' config_path wkdir, Run_soft ''SU2_SOL'' config_path wkdir]"
  using assms
  by (simp add: run_SU2_single_def os_path_exists_def os_getcwd_def os_chdir_dir
      os_chdir_trace run_soft_trace Let_def)

theorem run_SU2_single_invocations_witness:
  "trace (snd (run_SU2_single (sample_env 0) ''/run/ConfigCFD.cfg'' ''/run'' sample_world)) =
     [Run_soft ''SU2_CFD'' ''/run/ConfigCFD.cfg'' ''/run'',
      Run_soft ''SU2_SOL'' ''/run/ConfigCFD.cfg'' ''/run'']"
proof -
  have "trace sample_world = []"
    by (simp add: sample_world_def)
  then show ?thesis
    using run_SU2_single_invocations [OF sample_run_is_dir, where E = "sample_env 0"
        and config_path = "''/run/ConfigCFD.cfg''"]
    by simp
qed

text \<open>
  C5: called with a working directory that exists, \<open>run_SU2_fsi\<close> reads the given
  configuration and writes \<open>ConfigDEF.cfg\<close>, reads it again and writes \<open>ConfigCFD.cfg\<close>,
  then runs \<open>SU2_DEF\<close> with the \<open>ConfigDEF.cfg\<close> it wrote, \<open>SU2_CFD\<close> and \<open>SU2_SOL\<close> with the
  \<open>ConfigCFD.cfg\<close> it wrote, and only then calls \<^verbatim>\<open>extract_loads\<close> on the working
  directory. It makes no other call.
\<close>

theorem run_SU2_fsi_invocations:
  assumes "fs (os w) wkdir = Some (Dir names)"
  shows "\<exists>cfg_def d cfg_cfd c.
     trace (snd (run_SU2_fsi E config_path wkdir w)) =
     trace w @
       [Read_config config_path cfg_def,
        Write_config (os_path_join wkdir ''ConfigDEF.cfg'') d,
        Read_config config_path cfg_cfd,
        Write_config (os_path_join wkdir ''ConfigCFD.cfg'') c,
        Run_soft ''SU2_DEF'' (os_path_join wkdir ''ConfigDEF.cfg'') wkdir,
        Run_soft ''SU2_CFD'' (os_path_join wkdir ''ConfigCFD.cfg'') wkdir,
        Run_soft ''SU2_SOL'' (os_path_join wkdir ''ConfigCFD.cfg'') wkdir,
        Extract_loads wkdir]"
  using run_SU2_fsi_trace [OF assms, of E config_path]
  by (simp add: Let_def)

theorem run_SU2_fsi_invocations_witness:
  "\<exists>cfg_def d cfg_cfd c.
     trace (snd (run_SU2_fsi (sample_env 0) ''/run/ConfigCFD.cfg'' ''/run'' sample_world)) =
       [Read_config ''/run/ConfigCFD.cfg'' cfg_def,
        Write_config ''/run/ConfigDEF.cfg'' d,
        Read_config ''/run/ConfigCFD.cfg'' cfg_cfd,
        Write_config ''/run/ConfigCFD.cfg'' c,
        Run_soft ''SU2_DEF'' ''/run/ConfigDEF.cfg'' ''/run'',
        Run_soft ''SU2_CFD'' ''/run/ConfigCFD.cfg'' ''/run'',
        Run_soft ''SU2_SOL'' ''/run/ConfigCFD.cfg'' ''/run'',
        Extract_loads ''/run'']"
proof -
  have "trace sample_world = []"
    by (simp add: sample_world_def)
  then show ?thesis
    using run_SU2_fsi_invocations [OF sample_run_is_dir, where E = "sample_env 0"
        and config_path = "''/run/ConfigCFD.cfg''"]
    by (simp add: os_path_join_def)
qed

subsection \<open>run\_SU2\_fsi: the configurations written\<close>

text \<open>
  C2: \<open>run_SU2_fsi\<close> reads the input configuration twice and writes two files, in this
  order: read, write \<open>ConfigDEF.cfg\<close>, read, write \<open>ConfigCFD.cfg\<close>. The dictionary written
  to \<open>ConfigDEF.cfg\<close> is the one the first read returned with the five keys \<open>DV_KIND\<close>,
  \<open>DV_MARKER\<close>, \<open>DV_FILENAME\<close>, \<open>DV_PARAM\<close> and \<open>DV_VALUE\<close> set to their fixed values; the
  one written to \<open>ConfigCFD.cfg\<close> is the one the second read returned with the key
  \<open>MESH_FILENAME\<close> set to \<open>mesh_out.su2\<close>. Every other key has the value that was read.
\<close>

theorem run_SU2_fsi_written_configs:
  assumes "fs (os w) wkdir = Some (Dir names)"
  shows "\<exists>cfg_def d cfg_cfd c.
     config_io (trace (snd (run_SU2_fsi E config_path wkdir w))) =
       config_io (trace w) @
       [Read_config config_path cfg_def,
        Write_config (os_path_join wkdir ''ConfigDEF.cfg'') d,
        Read_config config_path cfg_cfd,
        Write_config (os_path_join wkdir ''ConfigCFD.cfg'') c] \<and>
     (\<forall>key. get_item d key =
        (if key = ''DV_KIND'' then Some (PStr ''SURFACE_FILE'')
         else if key = ''DV_MARKER'' then Some (PStr ''Wing'')
         else if key = ''DV_FILENAME'' then Some (PStr ''disp.dat'')
         else if key = ''DV_PARAM''
           then Some (PList [''WING'', ''0'', ''0'', ''1'', ''0.0'', ''0.0'', ''1.0''])
         else if key = ''DV_VALUE'' then Some (PFloat 1 (- 2))
         else get_item cfg_def key)) \<and>
     (\<forall>key. get_item c key =
        (if key = ''MESH_FILENAME'' then Some (PStr ''mesh_out.su2'')
         else get_item cfg_cfd key))"
proof -
  let ?s1 = "(os w)\<lparr>cwd := wkdir\<rparr>"
  let ?cfg_def = "config_read E config_path ?s1"
  let ?s2 = "config_write E (os_path_join wkdir ''ConfigDEF.cfg'') (set_def_items ?cfg_def) ?s1"
  let ?cfg_cfd = "config_read E config_path ?s2"
  have io: "config_io (trace (snd (run_SU2_fsi E config_path wkdir w))) =
       config_io (trace w) @
       [Read_config config_path ?cfg_def,
        Write_config (os_path_join wkdir ''ConfigDEF.cfg'') (set_def_items ?cfg_def),
        Read_config config_path ?cfg_cfd,
        Write_config (os_path_join wkdir ''ConfigCFD.cfg'') (set_cfd_items ?cfg_cfd)]"
    using run_SU2_fsi_trace [OF assms, of E config_path]
    by (simp add: Let_def config_io_append)
  have d: "\<forall>key. get_item (set_def_items ?cfg_def) key =
        (if key = ''DV_KIND'' then Some (PStr ''SURFACE_FILE'')
         else if key = ''DV_MARKER'' then Some (PStr ''Wing'')
         else if key = ''DV_FILENAME'' then Some (PStr ''disp.dat'')
         else if key = ''DV_PARAM''
           then Some (PList [''WING'', ''0'', ''0'', ''1'', ''0.0'', ''0.0'', ''1.0''])
         else if key = ''DV_VALUE'' then Some (PFloat 1 (- 2))
         else get_item ?cfg_def key)"
    using set_def_items_get by blast
  have c: "\<forall>key. get_item (set_cfd_items ?cfg_cfd) key =
        (if key = ''MESH_FILENAME'' then Some (PStr ''mesh_out.su2'')
         else get_item ?cfg_cfd key)"
    using set_cfd_items_get by blast
  from io d c show ?thesis by blast
qed

theorem run_SU2_fsi_written_configs_witness:
  "\<exists>cfg_def d cfg_cfd c.
     config_io (trace (snd (run_SU2_fsi (sample_env 0) ''/run/ConfigCFD.cfg'' ''/run''
        sample_world))) =
       [Read_config ''/run/ConfigCFD.cfg'' cfg_def,
        Write_config ''/run/ConfigDEF.cfg'' d,
        Read_config ''/run/ConfigCFD.cfg'' cfg_cfd,
        Write_config ''/run/ConfigCFD.cfg'' c] \<and>
     (\<forall>key. get_item d key =
        (if key = ''DV_KIND'' then Some (PStr ''SURFACE_FILE'')
         else if key = ''DV_MARKER'' then Some (PStr ''Wing'')
         else if key = ''DV_FILENAME'' then Some (PStr ''disp.dat'')
         else if key = ''DV_PARAM''
           then Some (PList [''WING'', ''0'', ''0'', ''1'', ''0.0'', ''0.0'', ''1.0''])
         else if key = ''DV_VALUE'' then Some (PFloat 1 (- 2))
         else get_item cfg_def key)) \<and>
     (\<forall>key. get_item c key =
        (if key = ''MESH_FILENAME'' then Some (PStr ''mesh_out.su2'')
         else get_item cfg_cfd key))"
proof -
  have "config_io (trace sample_world) = []"
    by (simp add: sample_world_def)
  then show ?thesis
    using run_SU2_fsi_written_configs [OF sample_run_is_dir, where E = "sample_env 0"
        and config_path = "''/run/ConfigCFD.cfg''"]
    by (simp add: os_path_join_def)
qed

subsection \<open>The current directory on return\<close>

lemma os_chdir_ok_cwd: "os_chdir p w = (Inr u, w') \<Longrightarrow> cwd (os w') = p"
  by (auto dest: os_chdir_ok)

lemma os_chdir_fst_cwd: "fst (os_chdir p w) = Inr () \<Longrightarrow> cwd (os (snd (os_chdir p w))) = p"
  by (cases "os_chdir p w") (auto dest: os_chdir_ok)

lemma run_case_ok_cwd: "run_case E wkdir dir w = (Inr u, w') \<Longrightarrow> cwd (os w') = wkdir"
  by (auto simp: run_case_def Let_def os_chdir_ok_cwd
      split: prod.splits sum.splits option.splits)

lemma run_cases_ok_cwd:
  "dirs \<noteq> [] \<Longrightarrow> run_cases E wkdir dirs w = (Inr u, w') \<Longrightarrow> cwd (os w') = wkdir"
proof (induction dirs arbitrary: w)
  case Nil
  then show ?case by simp
next
  case (Cons dir dirs)
  from Cons.prems(2) obtain w1 where
    one: "run_case E wkdir dir w = (Inr (), w1)" and
    rest: "run_cases E wkdir dirs w1 = (Inr u, w')"
    by (auto split: prod.splits sum.splits)
  show ?case
  proof (cases dirs)
    case Nil
    with one rest show ?thesis
      by (simp add: run_case_ok_cwd)
  next
    case (Cons dir' dirs')
    then have "dirs \<noteq> []" by simp
    from Cons.IH [OF this rest] show ?thesis .
  qed
qed

lemma run_cases_fst_cwd:
  "dirs \<noteq> [] \<Longrightarrow> fst (run_cases E wkdir dirs w) = Inr () \<Longrightarrow>
   cwd (os (snd (run_cases E wkdir dirs w))) = wkdir"
  by (cases "run_cases E wkdir dirs w") (auto dest: run_cases_ok_cwd)

lemma run_SU2_single_ok_cwd:
  "fst (run_SU2_single E config_path wkdir w) = Inr () \<Longrightarrow>
   cwd (os (snd (run_SU2_single E config_path wkdir w))) = cwd (os w)"
  by (auto simp: run_SU2_single_def Let_def os_getcwd_def os_chdir_fst_cwd
      split: if_splits prod.splits sum.splits)

lemma run_SU2_fsi_ok_cwd:
  "fst (run_SU2_fsi E config_path wkdir w) = Inr () \<Longrightarrow>
   cwd (os (snd (run_SU2_fsi E config_path wkdir w))) = cwd (os w)"
  by (auto simp: run_SU2_fsi_def Let_def os_getcwd_def os_chdir_fst_cwd
      split: if_splits prod.splits sum.splits)

lemma run_SU2_multi_ok_cwd:
  "fst (run_SU2_multi E wkdir w) = Inr () \<Longrightarrow>
   cwd (os (snd (run_SU2_multi E wkdir w))) = wkdir"
  by (auto simp: run_SU2_multi_def Let_def run_cases_fst_cwd
      split: if_splits prod.splits sum.splits)

text \<open>
  C10: when \<open>run_SU2_single\<close> or \<open>run_SU2_fsi\<close> returns, the current directory is the one
  at entry; when \<open>run_SU2_multi\<close> returns, the current directory is the working directory
  it was given, whatever it was at entry.
\<close>

theorem cwd_on_return:
  "(fst (run_SU2_single E config_path wkdir w) = Inr () \<longrightarrow>
      cwd (os (snd (run_SU2_single E config_path wkdir w))) = cwd (os w)) \<and>
   (fst (run_SU2_fsi E config_path wkdir w) = Inr () \<longrightarrow>
      cwd (os (snd (run_SU2_fsi E config_path wkdir w))) = cwd (os w)) \<and>
   (fst (run_SU2_multi E wkdir w) = Inr () \<longrightarrow>
      cwd (os (snd (run_SU2_multi E wkdir w))) = wkdir)"
  using run_SU2_single_ok_cwd run_SU2_fsi_ok_cwd run_SU2_multi_ok_cwd by blast

lemma sample_runs_return:
  "fst (run_SU2_single (sample_env 0) ''/run/ConfigCFD.cfg'' ''/run'' sample_world) = Inr ()"
  "fst (run_SU2_fsi (sample_env 0) ''/run/ConfigCFD.cfg'' ''/run'' sample_world) = Inr ()"
  "fst (run_SU2_multi (sample_env 0) ''/run'' sample_world) = Inr ()"
  by (simp_all add: run_soft_def sample_env_def sample_world_def sample_fs_def
      run_SU2_single_def run_SU2_fsi_def run_SU2_multi_def os_path_exists_def os_getcwd_def
      os_chdir_def os_listdir_def os_path_join_def case_dirs_def run_case_def
      check_file_def check_name_def not_found_def run_def_if_def
      read_config_def write_config_def extract_loads_def Let_def)

theorem cwd_on_return_witness:
  "cwd (os sample_world) = ''/home'' \<and>
   fst (run_SU2_single (sample_env 0) ''/run/ConfigCFD.cfg'' ''/run'' sample_world) = Inr () \<and>
   cwd (os (snd (run_SU2_single (sample_env 0) ''/run/ConfigCFD.cfg'' ''/run'' sample_world)))
     = ''/home'' \<and>
   fst (run_SU2_fsi (sample_env 0) ''/run/ConfigCFD.cfg'' ''/run'' sample_world) = Inr () \<and>
   cwd (os (snd (run_SU2_fsi (sample_env 0) ''/run/ConfigCFD.cfg'' ''/run'' sample_world)))
     = ''/home'' \<and>
   fst (run_SU2_multi (sample_env 0) ''/run'' sample_world) = Inr () \<and>
   cwd (os (snd (run_SU2_multi (sample_env 0) ''/run'' sample_world))) = ''/run''"
proof -
  have home: "cwd (os sample_world) = ''/home''"
    by (simp add: sample_world_def)
  show ?thesis
    using home sample_runs_return
      cwd_on_return [where E = "sample_env 0" and config_path = "''/run/ConfigCFD.cfg''"
        and wkdir = "''/run''" and w = sample_world]
    by simp
qed

subsection \<open>run\_SU2\_multi: case directories and configuration files\<close>

lemma take_prefix_iff: "take (length sub) s = sub \<longleftrightarrow> (\<exists>b. s = sub @ b)"
  by (metis append_eq_conv_conj append_take_drop_id)

lemma str_in_iff: "str_in sub s \<longleftrightarrow> (\<exists>a b. s = a @ sub @ b)"
proof (induction s)
  case Nil
  then show ?case by simp
next
  case (Cons c cs)
  show ?case
  proof
    assume "str_in sub (c # cs)"
    then consider "take (length sub) (c # cs) = sub" | "str_in sub cs" by auto
    then show "\<exists>a b. c # cs = a @ sub @ b"
    proof cases
      case 1
      then obtain b where "c # cs = sub @ b" using take_prefix_iff by metis
      then have "c # cs = [] @ sub @ b" by simp
      then show ?thesis by blast
    next
      case 2
      with Cons.IH obtain a b where "cs = a @ sub @ b" by blast
      then have "c # cs = (c # a) @ sub @ b" by simp
      then show ?thesis by blast
    qed
  next
    assume "\<exists>a b. c # cs = a @ sub @ b"
    then obtain a b where ab: "c # cs = a @ sub @ b" by blast
    show "str_in sub (c # cs)"
    proof (cases a)
      case Nil
      with ab have "take (length sub) (c # cs) = sub" using take_prefix_iff by fastforce
      then show ?thesis by simp
    next
      case (Cons x a')
      with ab have "cs = a' @ sub @ b" by simp
      with Cons.IH have "str_in sub cs" by blast
      then show ?thesis by simp
    qed
  qed
qed

lemma case_dirs_filter: "case_dirs names = filter (\<lambda>dir. \<exists>a b. dir = a @ ''Case'' @ b) names"
  unfolding case_dirs_def by (rule filter_cong) (simp_all add: str_in_iff)

lemma check_file_fields:
  "check_file config_dir file f = Inr f' \<Longrightarrow>
     config_cfd_path f' =
       (if file = ''ConfigCFD.cfg'' then Some (os_path_join config_dir ''ConfigCFD.cfg'')
        else config_cfd_path f) \<and>
     config_def_path f' =
       (if file = ''ConfigDEF.cfg'' then Some (os_path_join config_dir ''ConfigDEF.cfg'')
        else config_def_path f) \<and>
     config_rot_path f' =
       (if file = ''ConfigDEF_rot.cfg'' then Some (os_path_join config_dir ''ConfigDEF_rot.cfg'')
        else config_rot_path f) \<and>
     config_rot_sym_path f' =
       (if file = ''ConfigDEF_rot_sym.cfg''
        then Some (os_path_join config_dir ''ConfigDEF_rot_sym.cfg'')
        else config_rot_sym_path f)"
  by (auto simp: check_file_def check_name_def split: if_splits sum.splits)

lemma check_file_other:
  "file \<notin> {''ConfigCFD.cfg'', ''ConfigDEF.cfg'', ''ConfigDEF_rot.cfg'', ''ConfigDEF_rot_sym.cfg''}
   \<Longrightarrow> check_file config_dir file f = Inr f"
  by (simp add: check_file_def check_name_def)

lemma find_configs_filter:
  "find_configs config_dir files f =
   find_configs config_dir
     (filter (\<lambda>file. file \<in> {''ConfigCFD.cfg'', ''ConfigDEF.cfg'', ''ConfigDEF_rot.cfg'',
        ''ConfigDEF_rot_sym.cfg''}) files) f"
proof (induction files arbitrary: f)
  case Nil
  then show ?case by simp
next
  case (Cons x xs)
  show ?case
  proof (cases "x \<in> {''ConfigCFD.cfg'', ''ConfigDEF.cfg'', ''ConfigDEF_rot.cfg'',
        ''ConfigDEF_rot_sym.cfg''}")
    case True
    then show ?thesis using Cons.IH by (simp split: sum.splits)
  next
    case False
    then have "check_file config_dir x f = Inr f" by (rule check_file_other)
    with False show ?thesis using Cons.IH by simp
  qed
qed

lemma find_configs_fields:
  "find_configs config_dir files f = Inr f' \<Longrightarrow>
     config_cfd_path f' =
       (if ''ConfigCFD.cfg'' \<in> set files then Some (os_path_join config_dir ''ConfigCFD.cfg'')
        else config_cfd_path f) \<and>
     config_def_path f' =
       (if ''ConfigDEF.cfg'' \<in> set files then Some (os_path_join config_dir ''ConfigDEF.cfg'')
        else config_def_path f) \<and>
     config_rot_path f' =
       (if ''ConfigDEF_rot.cfg'' \<in> set files
        then Some (os_path_join config_dir ''ConfigDEF_rot.cfg'')
        else config_rot_path f) \<and>
     config_rot_sym_path f' =
       (if ''ConfigDEF_rot_sym.cfg'' \<in> set files
        then Some (os_path_join config_dir ''ConfigDEF_rot_sym.cfg'')
        else config_rot_sym_path f)"
proof (induction files arbitrary: f)
  case Nil
  then show ?case by simp
next
  case (Cons x xs)
  from Cons.prems obtain f1 where
    one: "check_file config_dir x f = Inr f1" and
    rest: "find_configs config_dir xs f1 = Inr f'"
    by (auto split: sum.splits)
  from check_file_fields [OF one] Cons.IH [OF rest] show ?case
    by auto
qed

lemma check_file_succeeds:
  assumes "x = ''ConfigCFD.cfg'' \<longrightarrow> config_cfd_path f = None"
      and "x = ''ConfigDEF.cfg'' \<longrightarrow> config_def_path f = None"
      and "x = ''ConfigDEF_rot.cfg'' \<longrightarrow> config_rot_path f = None"
      and "x = ''ConfigDEF_rot_sym.cfg'' \<longrightarrow> config_rot_sym_path f = None"
  shows "\<exists>f'. check_file config_dir x f = Inr f'"
  using assms by (simp add: check_file_def check_name_def)

lemma find_configs_succeeds:
  assumes "distinct files"
      and "''ConfigCFD.cfg'' \<in> set files \<longrightarrow> config_cfd_path f = None"
      and "''ConfigDEF.cfg'' \<in> set files \<longrightarrow> config_def_path f = None"
      and "''ConfigDEF_rot.cfg'' \<in> set files \<longrightarrow> config_rot_path f = None"
      and "''ConfigDEF_rot_sym.cfg'' \<in> set files \<longrightarrow> config_rot_sym_path f = None"
  shows "\<exists>f'. find_configs config_dir files f = Inr f'"
  using assms
proof (induction files arbitrary: f)
  case Nil
  then show ?case by simp
next
  case (Cons x xs)
  from Cons.prems obtain f1 where one: "check_file config_dir x f = Inr f1"
    using check_file_succeeds [of x f config_dir] by auto
  note fields = check_file_fields [OF one]
  from Cons.prems(1) have dx: "x \<notin> set xs" and dxs: "distinct xs" by simp_all
  have "\<exists>f'. find_configs config_dir xs f1 = Inr f'"
  proof (rule Cons.IH [OF dxs])
    show "''ConfigCFD.cfg'' \<in> set xs \<longrightarrow> config_cfd_path f1 = None"
      using fields dx Cons.prems(2) by auto
    show "''ConfigDEF.cfg'' \<in> set xs \<longrightarrow> config_def_path f1 = None"
      using fields dx Cons.prems(3) by auto
    show "''ConfigDEF_rot.cfg'' \<in> set xs \<longrightarrow> config_rot_path f1 = None"
      using fields dx Cons.prems(4) by auto
    show "''ConfigDEF_rot_sym.cfg'' \<in> set xs \<longrightarrow> config_rot_sym_path f1 = None"
      using fields dx Cons.prems(5) by auto
  qed
  with one show ?case by simp
qed

lemma run_def_if_trace:
  "trace (run_def_if E c config_dir w) =
     trace w @ (case c of None \<Rightarrow> [] | Some p \<Rightarrow> [Run_soft ''SU2_DEF'' p config_dir])"
  by (simp add: run_def_if_def run_soft_def split: option.splits)

text \<open>What one iteration does when the case directory can be listed.\<close>

lemma run_case_found:
  assumes "fs (os w) (os_path_join wkdir dir) = Some (Dir files)"
      and "find_configs (os_path_join wkdir dir) files not_found = Inr f"
  shows "run_case E wkdir dir w =
     (let config_dir = os_path_join wkdir dir;
          w1 = w\<lparr>os := (os w)\<lparr>cwd := config_dir\<rparr>\<rparr>;
          w2 = run_def_if E (config_def_path f) config_dir w1;
          w3 = run_def_if E (config_rot_path f) config_dir w2;
          w4 = run_def_if E (config_rot_sym_path f) config_dir w3
      in case config_cfd_path f of
           None \<Rightarrow> (Inl no_config_cfd, w4)
         | Some cfd_path \<Rightarrow>
             os_chdir wkdir (snd (run_soft E ''SU2_CFD'' cfd_path config_dir w4)))"
  using assms
  by (simp add: run_case_def Let_def os_chdir_dir os_listdir_def)

lemma run_case_listing:
  assumes "fs (os w) (os_path_join wkdir dir) = Some (Dir files)" and "distinct files"
  shows "trace (snd (run_case E wkdir dir w)) =
           trace w @ case_runs (os_path_join wkdir dir) files"
    and "''ConfigCFD.cfg'' \<notin> set files \<Longrightarrow> fst (run_case E wkdir dir w) = Inl no_config_cfd"
proof -
  obtain f where f: "find_configs (os_path_join wkdir dir) files not_found = Inr f"
    using find_configs_succeeds [OF assms(2), of not_found "os_path_join wkdir dir"]
    by (auto simp: not_found_def)
  note fields = find_configs_fields [OF f]
  note rc = run_case_found [OF assms(1) f, of E]
  show "trace (snd (run_case E wkdir dir w)) =
           trace w @ case_runs (os_path_join wkdir dir) files"
    using fields
    by (simp add: rc Let_def run_def_if_trace run_soft_trace os_chdir_trace
        case_runs_def def_runs_def not_found_def)
  show "fst (run_case E wkdir dir w) = Inl no_config_cfd" if "''ConfigCFD.cfg'' \<notin> set files"
    using fields that by (simp add: rc Let_def not_found_def)
qed

lemma os_chdir_err: "os_chdir p w = (Inl e, w') \<Longrightarrow> w' = w"
  by (auto simp: os_chdir_def split: option.splits node.splits)

lemma run_case_extends:
  "trace (snd (run_case E wkdir dir w)) =
     trace w @ drop (length (trace w)) (trace (snd (run_case E wkdir dir w)))"
  by (auto simp: run_case_def Let_def run_def_if_trace run_soft_trace os_chdir_trace
      split: prod.splits sum.splits option.splits dest!: os_chdir_ok os_chdir_err)

lemma run_case_block:
  "defs_then_cfd (os_path_join wkdir dir)
     (drop (length (trace w)) (trace (snd (run_case E wkdir dir w))))"
  by (auto simp: run_case_def Let_def run_def_if_trace run_soft_trace os_chdir_trace
      split: prod.splits sum.splits option.splits dest!: os_chdir_ok os_chdir_err)

lemma run_cases_blocks:
  "\<exists>blocks. trace (snd (run_cases E wkdir dirs w)) = trace w @ concat blocks \<and>
     list_all2 (\<lambda>dir block. defs_then_cfd (os_path_join wkdir dir) block)
       (take (length blocks) dirs) blocks"
proof (induction dirs arbitrary: w)
  case Nil
  have "trace (snd (run_cases E wkdir [] w)) = trace w @ concat [] \<and>
     list_all2 (\<lambda>dir block. defs_then_cfd (os_path_join wkdir dir) block)
       (take (length ([]::event list list)) []) []"
    by simp
  then show ?case by blast
next
  case (Cons dir dirs)
  let ?b = "drop (length (trace w)) (trace (snd (run_case E wkdir dir w)))"
  have ext: "trace (snd (run_case E wkdir dir w)) = trace w @ ?b"
    by (rule run_case_extends)
  have blk: "defs_then_cfd (os_path_join wkdir dir) ?b"
    by (rule run_case_block)
  obtain r w1 where rc: "run_case E wkdir dir w = (r, w1)"
    by (cases "run_case E wkdir dir w")
  show ?case
  proof (cases r)
    case (Inl e)
    with rc ext blk have
      "trace (snd (run_cases E wkdir (dir # dirs) w)) = trace w @ concat [?b] \<and>
       list_all2 (\<lambda>dir block. defs_then_cfd (os_path_join wkdir dir) block)
         (take (length [?b]) (dir # dirs)) [?b]"
      by simp
    then show ?thesis by blast
  next
    case (Inr u)
    from Cons.IH [of w1] obtain blocks where
      tr: "trace (snd (run_cases E wkdir dirs w1)) = trace w1 @ concat blocks" and
      all: "list_all2 (\<lambda>dir block. defs_then_cfd (os_path_join wkdir dir) block)
              (take (length blocks) dirs) blocks"
      by blast
    from rc Inr ext tr blk all have
      "trace (snd (run_cases E wkdir (dir # dirs) w)) = trace w @ concat (?b # blocks) \<and>
       list_all2 (\<lambda>dir block. defs_then_cfd (os_path_join wkdir dir) block)
         (take (length (?b # blocks)) (dir # dirs)) (?b # blocks)"
      by simp
    then show ?thesis by blast
  qed
qed

lemma run_cases_append:
  "run_cases E wkdir (xs @ ys) w =
     (case run_cases E wkdir xs w of
        (Inl e, w') \<Rightarrow> (Inl e, w')
      | (Inr u, w') \<Rightarrow> run_cases E wkdir ys w')"
  by (induction xs arbitrary: w) (auto split: prod.splits sum.splits)

lemma run_SU2_multi_listed:
  assumes "fs (os w) wkdir = Some (Dir names)"
  shows "run_SU2_multi E wkdir w =
     (if case_dirs names = [] then (Inl (no_case_dir wkdir), w\<lparr>os := (os w)\<lparr>cwd := wkdir\<rparr>\<rparr>)
      else run_cases E wkdir (case_dirs names) (w\<lparr>os := (os w)\<lparr>cwd := wkdir\<rparr>\<rparr>))"
  using assms
  by (simp add: run_SU2_multi_def os_path_exists_def os_chdir_dir os_listdir_def Let_def)

lemma run_cases_extends:
  "trace (snd (run_cases E wkdir dirs w)) =
     trace w @ drop (length (trace w)) (trace (snd (run_cases E wkdir dirs w)))"
  using run_cases_blocks [of E wkdir dirs w] by auto

lemma run_SU2_multi_extends:
  "trace (snd (run_SU2_multi E wkdir w)) =
     trace w @ drop (length (trace w)) (trace (snd (run_SU2_multi E wkdir w)))"
proof (cases "fs (os w) wkdir")
  case None
  then show ?thesis
    by (simp add: run_SU2_multi_def os_path_exists_def)
next
  case (Some n)
  show ?thesis
  proof (cases n)
    case (File content)
    with Some show ?thesis
      by (simp add: run_SU2_multi_def os_path_exists_def os_chdir_def Let_def)
  next
    case (Dir names)
    let ?w1 = "w\<lparr>os := (os w)\<lparr>cwd := wkdir\<rparr>\<rparr>"
    from Some Dir have m: "run_SU2_multi E wkdir w =
       (if case_dirs names = [] then (Inl (no_case_dir wkdir), ?w1)
        else run_cases E wkdir (case_dirs names) ?w1)"
      by (simp add: run_SU2_multi_listed)
    show ?thesis
      using run_cases_extends [of E wkdir "case_dirs names" ?w1]
      by (simp add: m)
  qed
qed

lemma run_case_found_trace:
  assumes "fs (os w) (os_path_join wkdir dir) = Some (Dir files)"
      and "find_configs (os_path_join wkdir dir) files not_found = Inr f"
  shows "trace (snd (run_case E wkdir dir w)) =
           trace w @ case_runs (os_path_join wkdir dir) files"
  using find_configs_fields [OF assms(2)]
  by (simp add: run_case_found [OF assms, of E] Let_def run_def_if_trace run_soft_trace
      os_chdir_trace case_runs_def def_runs_def not_found_def)

lemma run_case_find_error:
  assumes "fs (os w) (os_path_join wkdir dir) = Some (Dir files)"
      and "find_configs (os_path_join wkdir dir) files not_found = Inl e"
  shows "run_case E wkdir dir w = (Inl e, w\<lparr>os := (os w)\<lparr>cwd := os_path_join wkdir dir\<rparr>\<rparr>)"
  using assms
  by (simp add: run_case_def Let_def os_chdir_dir os_listdir_def)

lemma run_SU2_multi_reaches:
  assumes "fs (os w) wkdir = Some (Dir names)"
      and "case_dirs names = earlier @ dir # later"
      and "run_cases E wkdir earlier (w\<lparr>os := (os w)\<lparr>cwd := wkdir\<rparr>\<rparr>) = (Inr (), w1)"
  shows "run_SU2_multi E wkdir w =
     (case run_case E wkdir dir w1 of
        (Inl e, w') \<Rightarrow> (Inl e, w')
      | (Inr u, w') \<Rightarrow> run_cases E wkdir later w')"
  using assms by (simp add: run_SU2_multi_listed run_cases_append)

lemma run_SU2_multi_reaches_trace:
  assumes "fs (os w) wkdir = Some (Dir names)"
      and "case_dirs names = earlier @ dir # later"
      and "run_cases E wkdir earlier (w\<lparr>os := (os w)\<lparr>cwd := wkdir\<rparr>\<rparr>) = (Inr (), w1)"
  shows "\<exists>rest. trace (snd (run_SU2_multi E wkdir w)) =
           trace (snd (run_case E wkdir dir w1)) @ rest"
proof -
  note m = run_SU2_multi_reaches [OF assms]
  obtain r w2 where rc: "run_case E wkdir dir w1 = (r, w2)"
    by (cases "run_case E wkdir dir w1")
  show ?thesis
  proof (cases r)
    case (Inl e)
    with m rc have "trace (snd (run_SU2_multi E wkdir w)) =
           trace (snd (run_case E wkdir dir w1)) @ []"
      by simp
    then show ?thesis by blast
  next
    case (Inr u)
    with m rc have "run_SU2_multi E wkdir w = run_cases E wkdir later w2"
      by simp
    with rc run_cases_extends [of E wkdir later w2] show ?thesis
      by auto
  qed
qed

lemma sample_wk_is_dir:
  "fs (os sample_world) ''/wk'' = Some (Dir [''Case00'', ''notes.txt'', ''Case01''])"
  by (simp add: sample_world_def sample_fs_def)

lemmas sample_defs =
  sample_env_def sample_world_def sample_fs_def os_path_exists_def os_getcwd_def
  os_chdir_def os_listdir_def os_path_join_def case_dirs_def run_case_def run_soft_def
  check_file_def check_name_def not_found_def run_def_if_def Let_def

text \<open>
  C3: \<open>run_SU2_multi\<close> takes as case directories exactly the entries of the working
  directory whose name contains \<open>Case\<close>, in the order of the listing, and runs its loop
  over them. When it reaches a case directory, after the directories before it, it looks
  in the listing of that directory for the names \<open>ConfigCFD.cfg\<close>, \<open>ConfigDEF.cfg\<close>,
  \<open>ConfigDEF_rot.cfg\<close> and \<open>ConfigDEF_rot_sym.cfg\<close> and for nothing else: the entries with
  another name can be dropped from the listing. If the search raises, \<open>run_SU2_multi\<close>
  raises the same exception there. Otherwise each of the four configurations is found
  exactly when a file of exactly that name is listed, with the path of that file in the
  case directory, and \<open>run_SU2_multi\<close> goes on with the runs for the listed names: the
  calls it makes are those up to this directory, then \<open>SU2_DEF\<close> for each deformation
  configuration listed and \<open>SU2_CFD\<close> for \<open>ConfigCFD.cfg\<close> if it is listed, then the rest.
\<close>

theorem config_files_by_name:
  assumes "fs (os w) wkdir = Some (Dir names)"
  shows "run_SU2_multi E wkdir w =
     (let case_dir_list = filter (\<lambda>dir. \<exists>a b. dir = a @ ''Case'' @ b) names;
          w0 = w\<lparr>os := (os w)\<lparr>cwd := wkdir\<rparr>\<rparr>
      in if case_dir_list = []
         then (Inl (OSError (''No folder has been found in the working directory: '' @ wkdir)),
               w0)
         else run_cases E wkdir case_dir_list w0) \<and>
   (\<forall>earlier dir later w1 files.
      filter (\<lambda>dir. \<exists>a b. dir = a @ ''Case'' @ b) names = earlier @ dir # later \<and>
      run_cases E wkdir earlier (w\<lparr>os := (os w)\<lparr>cwd := wkdir\<rparr>\<rparr>) = (Inr (), w1) \<and>
      fs (os w1) (os_path_join wkdir dir) = Some (Dir files) \<longrightarrow>
      (let config_dir = os_path_join wkdir dir;
           listed = filter (\<lambda>x. x \<in> {''ConfigCFD.cfg'', ''ConfigDEF.cfg'',
                      ''ConfigDEF_rot.cfg'', ''ConfigDEF_rot_sym.cfg''}) files
       in case find_configs config_dir listed not_found of
            Inl e \<Rightarrow>
              run_SU2_multi E wkdir w = (Inl e, w1\<lparr>os := (os w1)\<lparr>cwd := config_dir\<rparr>\<rparr>)
          | Inr fnd \<Rightarrow>
              config_cfd_path fnd =
                (if ''ConfigCFD.cfg'' \<in> set files
                 then Some (os_path_join config_dir ''ConfigCFD.cfg'') else None) \<and>
              config_def_path fnd =
                (if ''ConfigDEF.cfg'' \<in> set files
                 then Some (os_path_join config_dir ''ConfigDEF.cfg'') else None) \<and>
              config_rot_path fnd =
                (if ''ConfigDEF_rot.cfg'' \<in> set files
                 then Some (os_path_join config_dir ''ConfigDEF_rot.cfg'') else None) \<and>
              config_rot_sym_path fnd =
                (if ''ConfigDEF_rot_sym.cfg'' \<in> set files
                 then Some (os_path_join config_dir ''ConfigDEF_rot_sym.cfg'') else None) \<and>
              (\<exists>rest. trace (snd (run_SU2_multi E wkdir w)) =
                        trace w1 @ case_runs config_dir files @ rest)))"
proof (intro conjI allI impI)
  show "run_SU2_multi E wkdir w =
     (let case_dir_list = filter (\<lambda>dir. \<exists>a b. dir = a @ ''Case'' @ b) names;
          w0 = w\<lparr>os := (os w)\<lparr>cwd := wkdir\<rparr>\<rparr>
      in if case_dir_list = []
         then (Inl (OSError (''No folder has been found in the working directory: '' @ wkdir)),
               w0)
         else run_cases E wkdir case_dir_list w0)"
    using assms unfolding case_dirs_filter [symmetric]
    by (simp add: run_SU2_multi_listed no_case_dir_def Let_def)
next
  fix earlier dir later w1 files
  let ?cd = "os_path_join wkdir dir"
  let ?listed = "filter (\<lambda>x. x \<in> {''ConfigCFD.cfg'', ''ConfigDEF.cfg'',
                      ''ConfigDEF_rot.cfg'', ''ConfigDEF_rot_sym.cfg''}) files"
  assume h: "filter (\<lambda>dir. \<exists>a b. dir = a @ ''Case'' @ b) names = earlier @ dir # later \<and>
      run_cases E wkdir earlier (w\<lparr>os := (os w)\<lparr>cwd := wkdir\<rparr>\<rparr>) = (Inr (), w1) \<and>
      fs (os w1) (os_path_join wkdir dir) = Some (Dir files)"
  then have dirs: "case_dirs names = earlier @ dir # later"
    and earlier: "run_cases E wkdir earlier (w\<lparr>os := (os w)\<lparr>cwd := wkdir\<rparr>\<rparr>) = (Inr (), w1)"
    and listing: "fs (os w1) ?cd = Some (Dir files)"
    by (simp_all add: case_dirs_filter)
  have same: "find_configs ?cd ?listed not_found = find_configs ?cd files not_found"
    by (rule find_configs_filter [symmetric])
  note m = run_SU2_multi_reaches [OF assms dirs earlier]
  have "case find_configs ?cd ?listed not_found of
            Inl e \<Rightarrow>
              run_SU2_multi E wkdir w = (Inl e, w1\<lparr>os := (os w1)\<lparr>cwd := ?cd\<rparr>\<rparr>)
          | Inr fnd \<Rightarrow>
              config_cfd_path fnd =
                (if ''ConfigCFD.cfg'' \<in> set files
                 then Some (os_path_join ?cd ''ConfigCFD.cfg'') else None) \<and>
              config_def_path fnd =
                (if ''ConfigDEF.cfg'' \<in> set files
                 then Some (os_path_join ?cd ''ConfigDEF.cfg'') else None) \<and>
              config_rot_path fnd =
                (if ''ConfigDEF_rot.cfg'' \<in> set files
                 then Some (os_path_join ?cd ''ConfigDEF_rot.cfg'') else None) \<and>
              config_rot_sym_path fnd =
                (if ''ConfigDEF_rot_sym.cfg'' \<in> set files
                 then Some (os_path_join ?cd ''ConfigDEF_rot_sym.cfg'') else None) \<and>
              (\<exists>rest. trace (snd (run_SU2_multi E wkdir w)) =
                        trace w1 @ case_runs ?cd files @ rest)"
  proof (cases "find_configs ?cd files not_found")
    case (Inl e)
    from run_case_find_error [OF listing Inl, of E] m
    have "run_SU2_multi E wkdir w = (Inl e, w1\<lparr>os := (os w1)\<lparr>cwd := ?cd\<rparr>\<rparr>)"
      by simp
    with Inl same show ?thesis by simp
  next
    case (Inr fnd)
    note fields = find_configs_fields [OF Inr]
    from run_SU2_multi_reaches_trace [OF assms dirs earlier]
      run_case_found_trace [OF listing Inr, of E]
    have "\<exists>rest. trace (snd (run_SU2_multi E wkdir w)) =
                        trace w1 @ case_runs ?cd files @ rest"
      by auto
    with Inr same fields show ?thesis
      by (simp add: not_found_def)
  qed
  then show "let config_dir = os_path_join wkdir dir;
           listed = filter (\<lambda>x. x \<in> {''ConfigCFD.cfg'', ''ConfigDEF.cfg'',
                      ''ConfigDEF_rot.cfg'', ''ConfigDEF_rot_sym.cfg''}) files
       in case find_configs config_dir listed not_found of
            Inl e \<Rightarrow>
              run_SU2_multi E wkdir w = (Inl e, w1\<lparr>os := (os w1)\<lparr>cwd := config_dir\<rparr>\<rparr>)
          | Inr fnd \<Rightarrow>
              config_cfd_path fnd =
                (if ''ConfigCFD.cfg'' \<in> set files
                 then Some (os_path_join config_dir ''ConfigCFD.cfg'') else None) \<and>
              config_def_path fnd =
                (if ''ConfigDEF.cfg'' \<in> set files
                 then Some (os_path_join config_dir ''ConfigDEF.cfg'') else None) \<and>
              config_rot_path fnd =
                (if ''ConfigDEF_rot.cfg'' \<in> set files
                 then Some (os_path_join config_dir ''ConfigDEF_rot.cfg'') else None) \<and>
              config_rot_sym_path fnd =
                (if ''ConfigDEF_rot_sym.cfg'' \<in> set files
                 then Some (os_path_join config_dir ''ConfigDEF_rot_sym.cfg'') else None) \<and>
              (\<exists>rest. trace (snd (run_SU2_multi E wkdir w)) =
                        trace w1 @ case_runs config_dir files @ rest)"
    by (simp only: Let_def)
qed

theorem config_files_by_name_witness:
  "run_SU2_multi (sample_env 0) ''/wk'' sample_world =
     run_cases (sample_env 0) ''/wk'' [''Case00'', ''Case01'']
       (sample_world\<lparr>os := (os sample_world)\<lparr>cwd := ''/wk''\<rparr>\<rparr>) \<and>
   find_configs ''/wk/Case00'' [''ConfigDEF.cfg'', ''ConfigCFD.cfg''] not_found =
     Inr \<lparr>config_cfd_path = Some ''/wk/Case00/ConfigCFD.cfg'',
          config_def_path = Some ''/wk/Case00/ConfigDEF.cfg'',
          config_rot_path = None, config_rot_sym_path = None\<rparr> \<and>
   (\<exists>rest. trace (snd (run_SU2_multi (sample_env 0) ''/wk'' sample_world)) =
      [Run_soft ''SU2_DEF'' ''/wk/Case00/ConfigDEF.cfg'' ''/wk/Case00'',
       Run_soft ''SU2_CFD'' ''/wk/Case00/ConfigCFD.cfg'' ''/wk/Case00''] @ rest)"
proof -
  let ?names = "[''Case00'', ''notes.txt'', ''Case01'']"
  let ?files = "[''ConfigDEF.cfg'', ''mesh.su2'', ''ConfigCFD.cfg'']"
  let ?w0 = "sample_world\<lparr>os := (os sample_world)\<lparr>cwd := ''/wk''\<rparr>\<rparr>"
  let ?fnd = "\<lparr>config_cfd_path = Some ''/wk/Case00/ConfigCFD.cfg'',
          config_def_path = Some ''/wk/Case00/ConfigDEF.cfg'',
          config_rot_path = None, config_rot_sym_path = None\<rparr>"
  note claim = config_files_by_name [OF sample_wk_is_dir, where E = "sample_env 0"]
  have "case_dirs ?names = [''Case00'', ''Case01'']"
    by (simp add: case_dirs_def)
  then have dirs:
    "filter (\<lambda>dir. \<exists>a b. dir = a @ ''Case'' @ b) ?names = [''Case00'', ''Case01'']"
    by (simp only: case_dirs_filter)
  from claim have a: "run_SU2_multi (sample_env 0) ''/wk'' sample_world =
     run_cases (sample_env 0) ''/wk'' [''Case00'', ''Case01''] ?w0"
    unfolding dirs by (simp add: Let_def)
  have reached:
    "filter (\<lambda>dir. \<exists>a b. dir = a @ ''Case'' @ b) ?names = [] @ ''Case00'' # [''Case01''] \<and>
     run_cases (sample_env 0) ''/wk'' [] ?w0 = (Inr (), ?w0) \<and>
     fs (os ?w0) (os_path_join ''/wk'' ''Case00'') = Some (Dir ?files)"
    unfolding dirs by (simp add: sample_world_def sample_fs_def os_path_join_def)
  have listed: "filter (\<lambda>x. x \<in> {''ConfigCFD.cfg'', ''ConfigDEF.cfg'',
                      ''ConfigDEF_rot.cfg'', ''ConfigDEF_rot_sym.cfg''}) ?files =
      [''ConfigDEF.cfg'', ''ConfigCFD.cfg'']"
    by simp
  have found: "find_configs (os_path_join ''/wk'' ''Case00'')
      [''ConfigDEF.cfg'', ''ConfigCFD.cfg''] not_found = Inr ?fnd"
    by (simp add: check_file_def check_name_def not_found_def os_path_join_def)
  from claim reached have
    "let config_dir = os_path_join ''/wk'' ''Case00'';
         listed = filter (\<lambda>x. x \<in> {''ConfigCFD.cfg'', ''ConfigDEF.cfg'',
                      ''ConfigDEF_rot.cfg'', ''ConfigDEF_rot_sym.cfg''}) ?files
     in case find_configs config_dir listed not_found of
          Inl e \<Rightarrow>
            run_SU2_multi (sample_env 0) ''/wk'' sample_world =
              (Inl e, ?w0\<lparr>os := (os ?w0)\<lparr>cwd := config_dir\<rparr>\<rparr>)
        | Inr fnd \<Rightarrow>
            config_cfd_path fnd =
              (if ''ConfigCFD.cfg'' \<in> set ?files
               then Some (os_path_join config_dir ''ConfigCFD.cfg'') else None) \<and>
            config_def_path fnd =
              (if ''ConfigDEF.cfg'' \<in> set ?files
               then Some (os_path_join config_dir ''ConfigDEF.cfg'') else None) \<and>
            config_rot_path fnd =
              (if ''ConfigDEF_rot.cfg'' \<in> set ?files
               then Some (os_path_join config_dir ''ConfigDEF_rot.cfg'') else None) \<and>
            config_rot_sym_path fnd =
              (if ''ConfigDEF_rot_sym.cfg'' \<in> set ?files
               then Some (os_path_join config_dir ''ConfigDEF_rot_sym.cfg'') else None) \<and>
            (\<exists>rest. trace (snd (run_SU2_multi (sample_env 0) ''/wk'' sample_world)) =
                      trace ?w0 @ case_runs config_dir ?files @ rest)"
    by blast
  then have "\<exists>rest. trace (snd (run_SU2_multi (sample_env 0) ''/wk'' sample_world)) =
      trace ?w0 @ case_runs (os_path_join ''/wk'' ''Case00'') ?files @ rest"
    unfolding Let_def listed found by simp
  then have c: "\<exists>rest. trace (snd (run_SU2_multi (sample_env 0) ''/wk'' sample_world)) =
      [Run_soft ''SU2_DEF'' ''/wk/Case00/ConfigDEF.cfg'' ''/wk/Case00'',
       Run_soft ''SU2_CFD'' ''/wk/Case00/ConfigCFD.cfg'' ''/wk/Case00''] @ rest"
    by (simp add: sample_world_def case_runs_def def_runs_def os_path_join_def)
  have b: "find_configs ''/wk/Case00'' [''ConfigDEF.cfg'', ''ConfigCFD.cfg''] not_found = Inr ?fnd"
    using found by (simp add: os_path_join_def)
  from a b c show ?thesis by blast
qed

text \<open>
  C6: the calls \<open>run_SU2_multi\<close> makes are the runs of the case directories it went
  through, one directory after the other, and the runs of one directory are \<open>SU2_DEF\<close>
  runs followed by at most one \<open>SU2_CFD\<close> run, which is the last. In a case directory
  whose listing is \<open>files\<close>, one iteration runs \<open>SU2_DEF\<close> for \<open>ConfigDEF.cfg\<close>, then for
  \<open>ConfigDEF_rot.cfg\<close>, then for \<open>ConfigDEF_rot_sym.cfg\<close>, each only if it is listed, and
  then \<open>SU2_CFD\<close> for \<open>ConfigCFD.cfg\<close> if it is listed.
\<close>

theorem deformations_before_cfd:
  assumes "fs (os w) wkdir = Some (Dir names)"
  shows "(\<exists>blocks.
            trace (snd (run_SU2_multi E wkdir w)) = trace w @ concat blocks \<and>
            list_all2 (\<lambda>dir block. defs_then_cfd (os_path_join wkdir dir) block)
              (take (length blocks) (case_dirs names)) blocks) \<and>
         (\<forall>dir files w1.
            fs (os w1) (os_path_join wkdir dir) = Some (Dir files) \<and> distinct files \<longrightarrow>
            trace (snd (run_case E wkdir dir w1)) =
              trace w1 @ case_runs (os_path_join wkdir dir) files)"
proof
  let ?w1 = "w\<lparr>os := (os w)\<lparr>cwd := wkdir\<rparr>\<rparr>"
  have m: "run_SU2_multi E wkdir w =
       (if case_dirs names = [] then (Inl (no_case_dir wkdir), ?w1)
        else run_cases E wkdir (case_dirs names) ?w1)"
    using assms by (rule run_SU2_multi_listed)
  show "\<exists>blocks.
            trace (snd (run_SU2_multi E wkdir w)) = trace w @ concat blocks \<and>
            list_all2 (\<lambda>dir block. defs_then_cfd (os_path_join wkdir dir) block)
              (take (length blocks) (case_dirs names)) blocks"
  proof (cases "case_dirs names = []")
    case True
    with m have "trace (snd (run_SU2_multi E wkdir w)) = trace w @ concat [] \<and>
            list_all2 (\<lambda>dir block. defs_then_cfd (os_path_join wkdir dir) block)
              (take (length ([]::event list list)) (case_dirs names)) []"
      by simp
    then show ?thesis by blast
  next
    case False
    with m run_cases_blocks [of E wkdir "case_dirs names" ?w1] show ?thesis
      by simp
  qed
  show "\<forall>dir files w1.
            fs (os w1) (os_path_join wkdir dir) = Some (Dir files) \<and> distinct files \<longrightarrow>
            trace (snd (run_case E wkdir dir w1)) =
              trace w1 @ case_runs (os_path_join wkdir dir) files"
    using run_case_listing(1) by blast
qed

theorem deformations_before_cfd_witness:
  "(\<exists>blocks.
      trace (snd (run_SU2_multi (sample_env 0) ''/wk'' sample_world)) = concat blocks \<and>
      list_all2 (\<lambda>dir block. defs_then_cfd (os_path_join ''/wk'' dir) block)
        (take (length blocks) [''Case00'', ''Case01'']) blocks) \<and>
   trace (snd (run_case (sample_env 0) ''/wk'' ''Case00'' sample_world)) =
     [Run_soft ''SU2_DEF'' ''/wk/Case00/ConfigDEF.cfg'' ''/wk/Case00'',
      Run_soft ''SU2_CFD'' ''/wk/Case00/ConfigCFD.cfg'' ''/wk/Case00'']"
proof -
  note claim = deformations_before_cfd [OF sample_wk_is_dir, where E = "sample_env 0"]
  have dirs: "case_dirs [''Case00'', ''notes.txt'', ''Case01''] = [''Case00'', ''Case01'']"
    by (simp add: case_dirs_def)
  have t0: "trace sample_world = []"
    by (simp add: sample_world_def)
  have listing: "fs (os sample_world) (os_path_join ''/wk'' ''Case00'') =
      Some (Dir [''ConfigDEF.cfg'', ''mesh.su2'', ''ConfigCFD.cfg'']) \<and>
      distinct [''ConfigDEF.cfg'', ''mesh.su2'', ''ConfigCFD.cfg'']"
    by (simp add: sample_world_def sample_fs_def os_path_join_def)
  from claim listing have
    "trace (snd (run_case (sample_env 0) ''/wk'' ''Case00'' sample_world)) =
       trace sample_world @
       case_runs (os_path_join ''/wk'' ''Case00'') [''ConfigDEF.cfg'', ''mesh.su2'', ''ConfigCFD.cfg'']"
    by blast
  then have one: "trace (snd (run_case (sample_env 0) ''/wk'' ''Case00'' sample_world)) =
     [Run_soft ''SU2_DEF'' ''/wk/Case00/ConfigDEF.cfg'' ''/wk/Case00'',
      Run_soft ''SU2_CFD'' ''/wk/Case00/ConfigCFD.cfg'' ''/wk/Case00'']"
    by (simp add: t0 case_runs_def def_runs_def os_path_join_def)
  from claim have "\<exists>blocks.
      trace (snd (run_SU2_multi (sample_env 0) ''/wk'' sample_world)) = concat blocks \<and>
      list_all2 (\<lambda>dir block. defs_then_cfd (os_path_join ''/wk'' dir) block)
        (take (length blocks) [''Case00'', ''Case01'']) blocks"
    by (simp add: t0 dirs)
  with one show ?thesis by blast
qed

text \<open>
  C9: let \<open>run_SU2_multi\<close> have processed the case directories \<open>earlier\<close> and reach a
  case directory \<open>dir\<close> that holds no \<open>ConfigCFD.cfg\<close>. Then it raises the
  \<^verbatim>\<open>ValueError\<close> for the missing file, but only after it has run \<open>SU2_DEF\<close> for every
  deformation configuration of \<open>dir\<close>: the calls made are those of the earlier
  directories, all of them, followed by these \<open>SU2_DEF\<close> runs.
\<close>

theorem missing_config_cfd_not_atomic:
  assumes "fs (os w) wkdir = Some (Dir names)"
      and "case_dirs names = earlier @ dir # later"
      and "run_cases E wkdir earlier (w\<lparr>os := (os w)\<lparr>cwd := wkdir\<rparr>\<rparr>) = (Inr (), w1)"
      and "fs (os w1) (os_path_join wkdir dir) = Some (Dir files)"
      and "distinct files"
      and "''ConfigCFD.cfg'' \<notin> set files"
  shows \<open>fst (run_SU2_multi E wkdir w) =
           Inl (ValueError ''No "ConfigCFD.cfg" file has been found in this directory!'') \<and>
         trace (snd (run_SU2_multi E wkdir w)) =
           trace w1 @ def_runs (os_path_join wkdir dir) files\<close>
proof -
  let ?w0 = "w\<lparr>os := (os w)\<lparr>cwd := wkdir\<rparr>\<rparr>"
  have m: "run_SU2_multi E wkdir w = run_cases E wkdir (earlier @ dir # later) ?w0"
    using assms(1,2) by (simp add: run_SU2_multi_listed)
  have c: "run_cases E wkdir (earlier @ dir # later) ?w0 = run_cases E wkdir (dir # later) w1"
    using assms(3) by (simp add: run_cases_append)
  obtain r w2 where rc: "run_case E wkdir dir w1 = (r, w2)"
    by (cases "run_case E wkdir dir w1")
  from run_case_listing [OF assms(4,5), of E] assms(6) rc
  have r: "r = Inl no_config_cfd" and
    t: "trace w2 = trace w1 @ case_runs (os_path_join wkdir dir) files"
    by simp_all
  from rc r have "run_cases E wkdir (dir # later) w1 = (Inl no_config_cfd, w2)"
    by simp
  with m c t assms(6) show ?thesis
    by (simp add: no_config_cfd_def case_runs_def)
qed

theorem missing_config_cfd_not_atomic_witness:
  \<open>fst (run_SU2_multi (sample_env 0) ''/wk'' sample_world) =
     Inl (ValueError ''No "ConfigCFD.cfg" file has been found in this directory!'') \<and>
   trace (snd (run_SU2_multi (sample_env 0) ''/wk'' sample_world)) =
     [Run_soft ''SU2_DEF'' ''/wk/Case00/ConfigDEF.cfg'' ''/wk/Case00'',
      Run_soft ''SU2_CFD'' ''/wk/Case00/ConfigCFD.cfg'' ''/wk/Case00'',
      Run_soft ''SU2_DEF'' ''/wk/Case01/ConfigDEF.cfg'' ''/wk/Case01'',
      Run_soft ''SU2_DEF'' ''/wk/Case01/ConfigDEF_rot.cfg'' ''/wk/Case01'']\<close>
proof -
  let ?w1 = "\<lparr>os = \<lparr>cwd = ''/wk'', fs = sample_fs\<rparr>,
              trace = [Run_soft ''SU2_DEF'' ''/wk/Case00/ConfigDEF.cfg'' ''/wk/Case00'',
                       Run_soft ''SU2_CFD'' ''/wk/Case00/ConfigCFD.cfg'' ''/wk/Case00'']\<rparr>"
  have dirs: "case_dirs [''Case00'', ''notes.txt'', ''Case01''] = [''Case00''] @ ''Case01'' # []"
    by (simp add: case_dirs_def)
  have earlier: "run_cases (sample_env 0) ''/wk'' [''Case00'']
      (sample_world\<lparr>os := (os sample_world)\<lparr>cwd := ''/wk''\<rparr>\<rparr>) = (Inr (), ?w1)"
    by (simp add: sample_defs)
  have listing: "fs (os ?w1) (os_path_join ''/wk'' ''Case01'') =
      Some (Dir [''ConfigDEF_rot.cfg'', ''ConfigDEF.cfg''])"
    by (simp add: sample_fs_def os_path_join_def)
  have d: "distinct [''ConfigDEF_rot.cfg'', ''ConfigDEF.cfg'']"
    by simp
  have no_cfd: "''ConfigCFD.cfg'' \<notin> set [''ConfigDEF_rot.cfg'', ''ConfigDEF.cfg'']"
    by simp
  show ?thesis
    using missing_config_cfd_not_atomic [OF sample_wk_is_dir dirs earlier listing d no_cfd]
    by (simp add: def_runs_def os_path_join_def)
qed

subsection \<open>The main block without argument\<close>

text \<open>
  C7, as the specification states it, fails: the three steps are not always performed.
  With no argument and a working directory that holds no entry with \<open>Case\<close> in its name,
  \<open>run_SU2_multi\<close> raises its \<^verbatim>\<open>OSError\<close>, the program ends with it, and
  \<^verbatim>\<open>get_su2_results\<close> is never called.
\<close>

theorem main_without_argument_stops:
  "fst (main ((sample_env 0)\<lparr>wkdir_result := (\<lambda>s. ''/home'')\<rparr>) [''su2run.py''] sample_world) =
     Inl (OSError ''No folder has been found in the working directory: /home'') \<and>
   trace (snd (main ((sample_env 0)\<lparr>wkdir_result := (\<lambda>s. ''/home'')\<rparr>) [''su2run.py'']
      sample_world)) =
     [Open_tixi ''/mod/ToolInput/ToolInput.xml'',
      Get_wkdir_or_create_new,
      Generate_su2_config ''/mod/ToolInput/ToolInput.xml'' ''/mod/ToolOutput/ToolOutput.xml''
        ''/home'']"
  by (simp add: main_def run_SU2_multi_def no_case_dir_def generate_su2_config_def
      get_wkdir_or_create_new_def open_tixi_def sample_defs)

text \<open>
  C7, amended: started without a command-line argument, the program opens the CPACS file,
  gets the working directory, and then calls \<^verbatim>\<open>generate_su2_config\<close> and
  \<open>run_SU2_multi\<close>, in this order, on that working directory; the calls after the
  generation are those \<open>run_SU2_multi\<close> makes from the world the generation left. When
  \<open>run_SU2_multi\<close> returns, \<^verbatim>\<open>get_su2_results\<close> is called last, on the same
  working directory; when it raises, the program ends with that exception and
  \<^verbatim>\<open>get_su2_results\<close> is not called.
\<close>

theorem main_without_argument:
  fixes E :: env and argv :: "string list" and w :: world
  defines "cpacs_path \<equiv>
             os_path_join (os_path_join (module_dir E) ''ToolInput'') ''ToolInput.xml''"
      and "cpacs_out_path \<equiv>
             os_path_join (os_path_join (module_dir E) ''ToolOutput'') ''ToolOutput.xml''"
      and "wkdir \<equiv> wkdir_result E (os w)"
  defines "w2 \<equiv> generate_su2_config E cpacs_path cpacs_out_path wkdir
             (snd (get_wkdir_or_create_new E (open_tixi cpacs_path w)))"
  assumes "length argv \<le> 1"
  shows "\<exists>evs.
     trace w2 = trace w @ [Open_tixi cpacs_path, Get_wkdir_or_create_new,
                           Generate_su2_config cpacs_path cpacs_out_path wkdir] \<and>
     trace (snd (run_SU2_multi E wkdir w2)) = trace w2 @ evs \<and>
     fst (main E argv w) = fst (run_SU2_multi E wkdir w2) \<and>
     trace (snd (main E argv w)) =
       trace w @ [Open_tixi cpacs_path, Get_wkdir_or_create_new,
                  Generate_su2_config cpacs_path cpacs_out_path wkdir] @ evs @
       (if fst (run_SU2_multi E wkdir w2) = Inr ()
        then [Get_su2_results cpacs_path cpacs_out_path wkdir] else [])"
proof -
  let ?evs = "drop (length (trace w2)) (trace (snd (run_SU2_multi E wkdir w2)))"
  have t2: "trace w2 = trace w @ [Open_tixi cpacs_path, Get_wkdir_or_create_new,
                           Generate_su2_config cpacs_path cpacs_out_path wkdir]"
    by (simp add: w2_def generate_su2_config_def get_wkdir_or_create_new_def open_tixi_def)
  have ext: "trace (snd (run_SU2_multi E wkdir w2)) = trace w2 @ ?evs"
    by (rule run_SU2_multi_extends)
  have m: "main E argv w =
      (case run_SU2_multi E wkdir w2 of
         (Inl e, w3) \<Rightarrow> (Inl e, w3)
       | (Inr u, w3) \<Rightarrow> (Inr (), get_su2_results E cpacs_path cpacs_out_path wkdir w3))"
    using assms(5)
    unfolding main_def w2_def wkdir_def cpacs_path_def cpacs_out_path_def
    by (simp add: Let_def get_wkdir_or_create_new_def open_tixi_def
        split: prod.splits sum.splits)
  obtain r w3 where r: "run_SU2_multi E wkdir w2 = (r, w3)"
    by (cases "run_SU2_multi E wkdir w2")
  have res: "fst (main E argv w) = fst (run_SU2_multi E wkdir w2)"
    by (cases r) (simp_all add: m r)
  have tr: "trace (snd (main E argv w)) =
       trace w @ [Open_tixi cpacs_path, Get_wkdir_or_create_new,
                  Generate_su2_config cpacs_path cpacs_out_path wkdir] @ ?evs @
       (if fst (run_SU2_multi E wkdir w2) = Inr ()
        then [Get_su2_results cpacs_path cpacs_out_path wkdir] else [])"
    using ext t2 by (cases r) (simp_all add: m r get_su2_results_def)
  from t2 ext res tr show ?thesis by blast
qed

theorem main_without_argument_witness:
  "fst (main (sample_env 0) [''su2run.py''] sample_world) = Inr () \<and>
   trace (snd (main (sample_env 0) [''su2run.py''] sample_world)) =
     [Open_tixi ''/mod/ToolInput/ToolInput.xml'',
      Get_wkdir_or_create_new,
      Generate_su2_config ''/mod/ToolInput/ToolInput.xml'' ''/mod/ToolOutput/ToolOutput.xml''
        ''/run'',
      Run_soft ''SU2_DEF'' ''/run/Case_a/ConfigDEF_rot_sym.cfg'' ''/run/Case_a'',
      Run_soft ''SU2_CFD'' ''/run/Case_a/ConfigCFD.cfg'' ''/run/Case_a'',
      Get_su2_results ''/mod/ToolInput/ToolInput.xml'' ''/mod/ToolOutput/ToolOutput.xml''
        ''/run'']"
proof -
  have len: "length [''su2run.py''] \<le> 1"
    by simp
  let ?w2 = "\<lparr>os = \<lparr>cwd = ''/home'', fs = sample_fs\<rparr>,
     trace = [Open_tixi ''/mod/ToolInput/ToolInput.xml'', Get_wkdir_or_create_new,
       Generate_su2_config ''/mod/ToolInput/ToolInput.xml'' ''/mod/ToolOutput/ToolOutput.xml''
         ''/run'']\<rparr>"
  have w2: "generate_su2_config (sample_env 0)
       (os_path_join (os_path_join (module_dir (sample_env 0)) ''ToolInput'') ''ToolInput.xml'')
       (os_path_join (os_path_join (module_dir (sample_env 0)) ''ToolOutput'') ''ToolOutput.xml'')
       ''/run''
       (snd (get_wkdir_or_create_new (sample_env 0)
          (open_tixi
            (os_path_join (os_path_join (module_dir (sample_env 0)) ''ToolInput'')
               ''ToolInput.xml'') sample_world))) = ?w2"
    by (simp add: generate_su2_config_def get_wkdir_or_create_new_def open_tixi_def
        sample_env_def sample_world_def os_path_join_def)
  have multi: "run_SU2_multi (sample_env 0) ''/run'' ?w2 =
     (Inr (), \<lparr>os = \<lparr>cwd = ''/run'', fs = sample_fs\<rparr>,
        trace = trace ?w2 @
          [Run_soft ''SU2_DEF'' ''/run/Case_a/ConfigDEF_rot_sym.cfg'' ''/run/Case_a'',
           Run_soft ''SU2_CFD'' ''/run/Case_a/ConfigCFD.cfg'' ''/run/Case_a'']\<rparr>)"
    by (simp add: run_SU2_multi_def sample_defs)
  have wk: "wkdir_result (sample_env 0) (os sample_world) = ''/run''"
    by (simp add: sample_env_def)
  show ?thesis
    using main_without_argument [OF len, where E = "sample_env 0" and w = sample_world]
    unfolding wk w2 multi
    by (simp add: sample_env_def sample_world_def os_path_join_def)
qed

end
